theory Spec2Isabelle
  imports Main
begin

section \<open>Token rotation for the generation API: a model of \<open>fetchWithTokenRotation\<close>\<close>

text \<open>
  The development follows the API client of the application (the source file with the
  functions \<open>getSharedTokens\<close>, \<open>getPersonalToken\<close> and \<open>fetchWithTokenRotation\<close>).
  The function is asynchronous and talks to the browser stores, the log service, the event
  bus and the network. Here every such interaction is an entry of an effect trace, in the
  order in which the source performs it, and the answers of the outside world (what the
  stores hold, what \<open>JSON.parse\<close> makes of a stored text, what the token service and the
  network answer) are fields of an environment record.

  Conventions of the model:
  \<^item> A thrown JavaScript value is an \<open>Error\<close> object with a name and a message. The
    values thrown inside the attempt loop come from \<open>fetch\<close>, \<open>response.json()\<close>, a
    property access on \<open>null\<close> and \<open>new Error(...)\<close>, and all of these are
    \<open>Error\<close> objects; so \<open>error instanceof Error\<close> on line 146 is always true.
  \<^item> Stored data is read at the types the source declares: a token is
    \<open>{ token: string; createdAt: string }\<close>.
  \<^item> Strings are lists of characters, and \<open>slice(-6)\<close> keeps the last six of them.
  \<^item> Calls of \<open>console.log\<close> and \<open>console.error\<close> are left out: they change
    neither the result nor any collaborator.
  \<^item> The run is sequential: nobody else writes the stores while the function awaits.
\<close>

subsection \<open>JavaScript values\<close>

text \<open>
  A parsed JSON value. An object is the list of its own properties (keys distinct, as
  \<open>JSON.parse\<close> leaves them). A number is held as the text that JavaScript prints for
  it, such as \<open>0\<close>, \<open>-1.5\<close> or \<open>1e+21\<close>: every number has exactly one such text,
  but for negative zero, which prints as \<open>0\<close> and which this code cannot tell from zero.
  So the model does no arithmetic on the numbers of a body and never formats one.
\<close>

datatype json =
    JNull
  | JBool bool
  | JNum string
  | JStr string
  | JArr "json list"
  | JObj "(string \<times> json) list"

datatype js_error = JsError (name: string) (message: string)

text \<open>Decimal numerals, as a template literal prints a number.\<close>

fun show_nat :: "nat \<Rightarrow> string" where
  "show_nat n = (if n < 10 then [''0123456789'' ! n]
                 else show_nat (n div 10) @ [''0123456789'' ! (n mod 10)])"

declare show_nat.simps [simp del]

definition show_int :: "int \<Rightarrow> string" where
  "show_int k = (if k < 0 then ''-'' @ show_nat (nat (- k)) else show_nat (nat k))"

text \<open>
  The conversion of a value to a string, as \<open>new Error(v)\<close> applies it to its argument;
  \<open>Inl\<close> is the error it throws. A string and a number are their text. An array joins
  the conversions of its elements with commas, \<open>null\<close> giving the empty text, and throws
  what the first failing element throws. An object without a property \<open>toString\<close> of
  its own prints as \<open>[object Object]\<close>; with one, which in a parsed body is never a
  function, the conversion finds no usable method and throws a \<open>TypeError\<close> (the message
  is the one of V8).
\<close>

definition cannot_convert_error :: js_error where
  "cannot_convert_error = JsError ''TypeError'' ''Cannot convert object to primitive value''"

fun ToString :: "json \<Rightarrow> js_error + string"
  and join :: "json list \<Rightarrow> js_error + string" where
  "ToString JNull = Inr ''null''"
| "ToString (JBool b) = Inr (if b then ''true'' else ''false'')"
| "ToString (JNum s) = Inr s"
| "ToString (JStr s) = Inr s"
| "ToString (JArr xs) = join xs"
| "ToString (JObj kvs) =
     (if map_of kvs ''toString'' \<noteq> None then Inl cannot_convert_error
      else Inr ''[object Object]'')"
| "join [] = Inr []"
| "join (x # xs) =
     (case (if x = JNull then Inr [] else ToString x) of
        Inl err \<Rightarrow> Inl err
      | Inr s \<Rightarrow>
          (case xs of
             [] \<Rightarrow> Inr s
           | y # ys \<Rightarrow>
               (case join (y # ys) of
                  Inl err \<Rightarrow> Inl err
                | Inr r \<Rightarrow> Inr (s @ '','' @ r))))"

text \<open>Truthiness, as \<open>||\<close> and \<open>if\<close> test it.\<close>

fun truthy :: "json \<Rightarrow> bool" where
  "truthy JNull = False"
| "truthy (JBool b) = b"
| "truthy (JNum s) = (s \<noteq> ''0'' \<and> s \<noteq> ''NaN'')"
| "truthy (JStr s) = (s \<noteq> [])"
| "truthy (JArr xs) = True"
| "truthy (JObj kvs) = True"

text \<open>
  Reading a property of a value other than \<open>null\<close>; \<open>None\<close> is \<open>undefined\<close>. Only
  the names \<open>error\<close> and \<open>message\<close> are ever read, and no array, string, number or
  boolean has a property of either name.
\<close>

fun get_prop :: "json \<Rightarrow> string \<Rightarrow> json option" where
  "get_prop (JObj kvs) k = map_of kvs k"
| "get_prop v k = None"

subsection \<open>Tokens, log entries, requests\<close>

record auth_token =
  token :: string
  createdAt :: string

datatype log_status = Success | Error

record log_entry =
  model :: string
  prompt :: string
  output_text :: string
  tokenCount :: nat
  status :: log_status
  error :: "string option"

record request =
  url :: string
  http_method :: string
  content_type :: string
  authorization :: string
  body :: string

text \<open>
  A response has a status and a body that \<open>response.json()\<close> either parses or rejects.
  \<open>fetch\<close> itself either rejects (\<open>Inl\<close>) or resolves with a response.
\<close>

datatype response = Response (status_code: nat) (json_body: "js_error + json")

definition ok :: "response \<Rightarrow> bool" where
  "ok r = (200 \<le> status_code r \<and> status_code r \<le> 299)"

record user =
  personalAuthToken :: "string option"

text \<open>
  The environment of one call. \<open>JSON_parse_user\<close> and \<open>JSON_parse_tokens\<close> are
  \<open>JSON.parse\<close> on lines 50 and 32, read at the declared types: \<open>Inl\<close> when it
  throws, \<open>Inr None\<close> for a falsy user, respectively for a value that is no array.
  \<open>getVeoAuthTokens\<close> is the answer of the token service: \<open>Inl\<close> when the promise
  rejects, \<open>Inr None\<close> for \<open>null\<close>. \<open>fetch n r\<close> is the answer to the request
  \<open>r\<close> when it is the \<open>n\<close>-th request of the call, counting from \<open>0\<close>.
\<close>

record env =
  localStorage :: "string \<rightharpoonup> string"
  sessionStorage :: "string \<rightharpoonup> string"
  JSON_parse_user :: "string \<Rightarrow> js_error + user option"
  JSON_parse_tokens :: "string \<Rightarrow> js_error + auth_token list option"
  JSON_stringify_tokens :: "auth_token list \<Rightarrow> string"
  JSON_stringify :: "json \<Rightarrow> string"
  getVeoAuthTokens :: "js_error + auth_token list option"
  fetch :: "nat \<Rightarrow> request \<Rightarrow> js_error + response"

datatype effect =
    LocalStorage_getItem string
  | SessionStorage_getItem string
  | SessionStorage_setItem string string
  | GetVeoAuthTokens
  | AddLogEntry log_entry
  | Fetch request
  | Dispatch string

record fetch_result =
  data :: json
  successfulToken :: string

subsection \<open>Reading the stores (lines 28 to 59)\<close>

definition getSharedTokens :: "env \<Rightarrow> auth_token list" where
  "getSharedTokens e =
     (case sessionStorage e ''veoAuthTokens'' of
        None \<Rightarrow> []
      | Some tokensJSON \<Rightarrow>
          if tokensJSON = [] then []
          else (case JSON_parse_tokens e tokensJSON of
                  Inl err \<Rightarrow> []
                | Inr None \<Rightarrow> []
                | Inr (Some parsed) \<Rightarrow> if length parsed > 0 then parsed else []))"

definition getPersonalToken :: "env \<Rightarrow> auth_token option" where
  "getPersonalToken e =
     (case localStorage e ''currentUser'' of
        None \<Rightarrow> None
      | Some userJson \<Rightarrow>
          if userJson = [] then None
          else (case JSON_parse_user e userJson of
                  Inl err \<Rightarrow> None
                | Inr None \<Rightarrow> None
                | Inr (Some u) \<Rightarrow>
                    (case personalAuthToken u of
                       None \<Rightarrow> None
                     | Some t \<Rightarrow> if t = [] then None
                                 else Some \<lparr>token = t, createdAt = ''personal''\<rparr>)))"

subsection \<open>Building the list of tokens to try (lines 77 to 106)\<close>

text \<open>\<open>if (specificToken)\<close>: the parameter is given and is not the empty string.\<close>

definition given :: "string option \<Rightarrow> bool" where
  "given specificToken = (case specificToken of None \<Rightarrow> False | Some t \<Rightarrow> t \<noteq> [])"

text \<open>
  Lines 88 to 100, entered when the session holds no shared token: the tokens to go on
  with, the session store afterwards, and the effects.
\<close>

definition refetch :: "env \<Rightarrow> auth_token list \<times> (string \<rightharpoonup> string) \<times> effect list" where
  "refetch e =
     (case getVeoAuthTokens e of
        Inl err \<Rightarrow> ([], sessionStorage e, [GetVeoAuthTokens])
      | Inr None \<Rightarrow> ([], sessionStorage e, [GetVeoAuthTokens])
      | Inr (Some newTokens) \<Rightarrow>
          if length newTokens > 0
          then (newTokens,
                (sessionStorage e)(''veoAuthTokens'' \<mapsto> JSON_stringify_tokens e newTokens),
                [GetVeoAuthTokens,
                 SessionStorage_setItem ''veoAuthTokens'' (JSON_stringify_tokens e newTokens)])
          else ([], sessionStorage e, [GetVeoAuthTokens]))"

definition build_tokensToTry ::
  "env \<Rightarrow> string option \<Rightarrow> auth_token list \<times> (string \<rightharpoonup> string) \<times> effect list" where
  "build_tokensToTry e specificToken =
     (if given specificToken
      then ([\<lparr>token = the specificToken, createdAt = ''N/A''\<rparr>], sessionStorage e, [])
      else
        (let personalToken = getPersonalToken e;
             sharedTokens = getSharedTokens e
         in case (if length sharedTokens = 0 then refetch e
                  else (sharedTokens, sessionStorage e, [])) of
              (sharedTokens', store, effs) \<Rightarrow>
                ((case personalToken of Some p \<Rightarrow> [p] | None \<Rightarrow> []) @ sharedTokens',
                 store,
                 [LocalStorage_getItem ''currentUser'', SessionStorage_getItem ''veoAuthTokens'']
                   @ effs)))"

text \<open>Line 103: the personal token, when there is one, as a list.\<close>

abbreviation (input) personal_list :: "env \<Rightarrow> auth_token list" where
  "personal_list e \<equiv> (case getPersonalToken e of Some p \<Rightarrow> [p] | None \<Rightarrow> [])"

definition tokensToTry :: "env \<Rightarrow> string option \<Rightarrow> auth_token list" where
  "tokensToTry e specificToken = fst (build_tokensToTry e specificToken)"

subsection \<open>One attempt (lines 116 to 152)\<close>

definition isPersonal :: "auth_token \<Rightarrow> bool" where
  "isPersonal currentToken = (createdAt currentToken = ''personal'')"

definition tokenIdentifier :: "env \<Rightarrow> nat \<Rightarrow> auth_token \<Rightarrow> string" where
  "tokenIdentifier e i currentToken =
     (if isPersonal currentToken then ''Personal Token''
      else ''Shared Token #''
             @ show_int (int i - (if getPersonalToken e \<noteq> None then 1 else 0) + 1))"

text \<open>\<open>slice(-6)\<close>: the last six characters, or the whole string when it is shorter.\<close>

definition slice6 :: "string \<Rightarrow> string" where
  "slice6 s = drop (length s - 6) s"

definition attempt_entry :: "env \<Rightarrow> string \<Rightarrow> nat \<Rightarrow> auth_token \<Rightarrow> log_entry" where
  "attempt_entry e logContext i currentToken =
     \<lparr>model = logContext,
      prompt = ''Attempt with '' @ tokenIdentifier e i currentToken,
      output_text = ''...'' @ slice6 (token currentToken),
      tokenCount = 0, status = Success, error = None\<rparr>"

definition failure_entry :: "env \<Rightarrow> string \<Rightarrow> nat \<Rightarrow> auth_token \<Rightarrow> js_error \<Rightarrow> log_entry" where
  "failure_entry e logContext i currentToken err =
     \<lparr>model = logContext,
      prompt = tokenIdentifier e i currentToken @ '' failed'',
      output_text = message err,
      tokenCount = 0, status = Error, error = Some (message err)\<rparr>"

definition exhaustion_entry :: "string \<Rightarrow> js_error \<Rightarrow> log_entry" where
  "exhaustion_entry logContext lastError =
     \<lparr>model = logContext,
      prompt = ''All available auth tokens failed.'',
      output_text = ''Final error: '' @ message lastError,
      tokenCount = 0, status = Error, error = Some (message lastError)\<rparr>"

definition request_for :: "env \<Rightarrow> string \<Rightarrow> json \<Rightarrow> auth_token \<Rightarrow> request" where
  "request_for e endpoint requestBody currentToken =
     \<lparr>url = endpoint, http_method = ''POST'', content_type = ''application/json'',
      authorization = ''Bearer '' @ token currentToken,
      body = JSON_stringify e requestBody\<rparr>"

text \<open>\<open>data.error?.message\<close>, for \<open>data\<close> other than \<open>null\<close>.\<close>

definition nested_message :: "json \<Rightarrow> json option" where
  "nested_message d =
     (case get_prop d ''error'' of
        None \<Rightarrow> None
      | Some JNull \<Rightarrow> None
      | Some v \<Rightarrow> get_prop v ''message'')"

definition truthy_prop :: "json option \<Rightarrow> bool" where
  "truthy_prop p = (case p of None \<Rightarrow> False | Some v \<Rightarrow> truthy v)"

text \<open>
  Line 137, for \<open>data\<close> other than \<open>null\<close>: the value that \<open>||\<close> selects, the first
  truthy one of the nested field, the top-level field and the generic text.
\<close>

definition errorMessage :: "json \<Rightarrow> nat \<Rightarrow> json" where
  "errorMessage d st =
     (if truthy_prop (nested_message d) then the (nested_message d)
      else if truthy_prop (get_prop d ''message'') then the (get_prop d ''message'')
      else JStr (''API call failed ('' @ show_nat st @ '')''))"

text \<open>
  Line 138, \<open>throw new Error(errorMessage)\<close>: what is thrown is the new error, whose
  message is the conversion of the value to a string, or else what that conversion throws.
\<close>

definition throw_new_Error :: "json \<Rightarrow> js_error" where
  "throw_new_Error v = (case ToString v of Inl err \<Rightarrow> err | Inr s \<Rightarrow> JsError ''Error'' s)"

text \<open>Reading \<open>data.error\<close> when \<open>data\<close> is \<open>null\<close> throws a \<open>TypeError\<close>.\<close>

definition null_read_error :: js_error where
  "null_read_error =
     JsError ''TypeError''
       (''Cannot read properties of null (reading '' @ [CHR 0x27] @ ''error'' @ [CHR 0x27] @ '')'')"

text \<open>
  The \<open>try\<close> block of lines 123 to 143 for the \<open>i\<close>-th token: \<open>Inr\<close> the parsed
  body when the block returns, \<open>Inl\<close> the value it throws.
\<close>

definition try_block :: "env \<Rightarrow> string \<Rightarrow> json \<Rightarrow> nat \<Rightarrow> auth_token \<Rightarrow> js_error + json" where
  "try_block e endpoint requestBody i currentToken =
     (case fetch e i (request_for e endpoint requestBody currentToken) of
        Inl err \<Rightarrow> Inl err
      | Inr resp \<Rightarrow>
          (case json_body resp of
             Inl err \<Rightarrow> Inl err
           | Inr d \<Rightarrow>
               if \<not> ok resp
               then (if d = JNull then Inl null_read_error
                     else Inl (throw_new_Error (errorMessage d (status_code resp))))
               else Inr d))"

text \<open>What an iteration does before the \<open>try\<close> block (lines 116 to 121) and the request.\<close>

definition attempt_effects :: "env \<Rightarrow> string \<Rightarrow> json \<Rightarrow> string \<Rightarrow> nat \<Rightarrow> auth_token \<Rightarrow> effect list" where
  "attempt_effects e endpoint requestBody logContext i currentToken =
     (if isPersonal currentToken then [] else [LocalStorage_getItem ''currentUser''])
     @ [AddLogEntry (attempt_entry e logContext i currentToken),
        Fetch (request_for e endpoint requestBody currentToken)]"

text \<open>What the \<open>catch\<close> block does (lines 144 to 157).\<close>

definition catch_effects :: "env \<Rightarrow> string \<Rightarrow> nat \<Rightarrow> auth_token \<Rightarrow> js_error \<Rightarrow> effect list" where
  "catch_effects e logContext i currentToken err =
     AddLogEntry (failure_entry e logContext i currentToken err)
     # (if isPersonal currentToken then [Dispatch ''personalTokenFailed''] else [])"

subsection \<open>The loop and the function (lines 108 to 162)\<close>

text \<open>
  The loop from index \<open>i\<close> on, over the tokens that are left, with the error of the
  last failed attempt. When no token is left, lines 160 to 162 run; reading
  \<open>lastError.message\<close> there would throw if no attempt had been made.
\<close>

definition null_message_error :: js_error where
  "null_message_error =
     JsError ''TypeError''
       (''Cannot read properties of null (reading '' @ [CHR 0x27] @ ''message'' @ [CHR 0x27] @ '')'')"

fun attempt_loop ::
  "env \<Rightarrow> string \<Rightarrow> json \<Rightarrow> string \<Rightarrow> nat \<Rightarrow> auth_token list \<Rightarrow> js_error option
     \<Rightarrow> (js_error + fetch_result) \<times> effect list" where
  "attempt_loop e endpoint requestBody logContext i [] lastError =
     (case lastError of
        None \<Rightarrow> (Inl null_message_error, [])
      | Some err \<Rightarrow> (Inl err, [AddLogEntry (exhaustion_entry logContext err)]))"
| "attempt_loop e endpoint requestBody logContext i (currentToken # rest) lastError =
     (case try_block e endpoint requestBody i currentToken of
        Inr d \<Rightarrow>
          (Inr \<lparr>data = d, successfulToken = token currentToken\<rparr>,
           attempt_effects e endpoint requestBody logContext i currentToken)
      | Inl err \<Rightarrow>
          (case attempt_loop e endpoint requestBody logContext (Suc i) rest (Some err) of
             (r, effs) \<Rightarrow>
               (r, attempt_effects e endpoint requestBody logContext i currentToken
                   @ catch_effects e logContext i currentToken err @ effs)))"

record run =
  outcome :: "js_error + fetch_result"
  session :: "string \<rightharpoonup> string"
  effects :: "effect list"

definition no_token_error :: "string \<Rightarrow> js_error" where
  "no_token_error logContext =
     JsError ''Error''
       (''Auth Token is required for '' @ logContext @ ''. Please set one in Settings.'')"

definition fetchWithTokenRotation ::
  "env \<Rightarrow> string \<Rightarrow> json \<Rightarrow> string \<Rightarrow> string option \<Rightarrow> run" where
  "fetchWithTokenRotation e endpoint requestBody logContext specificToken =
     (case build_tokensToTry e specificToken of
        (toks, store, effs) \<Rightarrow>
          if length toks = 0
          then \<lparr>outcome = Inl (no_token_error logContext), session = store, effects = effs\<rparr>
          else (case attempt_loop e endpoint requestBody logContext 0 toks None of
                  (r, effsL) \<Rightarrow> \<lparr>outcome = r, session = store, effects = effs @ effsL\<rparr>))"

subsection \<open>Reading a trace\<close>

fun log_entries :: "effect list \<Rightarrow> log_entry list" where
  "log_entries [] = []"
| "log_entries (AddLogEntry x # effs) = x # log_entries effs"
| "log_entries (x # effs) = log_entries effs"

fun requests :: "effect list \<Rightarrow> request list" where
  "requests [] = []"
| "requests (Fetch r # effs) = r # requests effs"
| "requests (x # effs) = requests effs"

fun dispatched :: "effect list \<Rightarrow> string list" where
  "dispatched [] = []"
| "dispatched (Dispatch ev # effs) = ev # dispatched effs"
| "dispatched (x # effs) = dispatched effs"

text \<open>The log entries and the requests of a trace, in their order.\<close>

fun audit_and_requests :: "effect list \<Rightarrow> effect list" where
  "audit_and_requests [] = []"
| "audit_and_requests (AddLogEntry x # effs) = AddLogEntry x # audit_and_requests effs"
| "audit_and_requests (Fetch r # effs) = Fetch r # audit_and_requests effs"
| "audit_and_requests (x # effs) = audit_and_requests effs"

subsection \<open>Sample environments\<close>

text \<open>
  Concrete tokens and environments on which the theorems below are instantiated. The stored
  texts are opaque; the parse functions of the environment say what they hold. The remote
  service of \<open>remote\<close> cannot be reached with the personal token \<open>P1\<close>, rejects the
  shared token \<open>S1\<close> with status 500 and the message \<open>quota exceeded\<close>, and accepts
  every other token.
\<close>

definition P1 :: auth_token where
  "P1 = \<lparr>token = ''p1-secret-xyz'', createdAt = ''personal''\<rparr>"

definition S1 :: auth_token where
  "S1 = \<lparr>token = ''s1-token-aaaa'', createdAt = ''2024-05-01''\<rparr>"

definition S2 :: auth_token where
  "S2 = \<lparr>token = ''s2-token-bbbb'', createdAt = ''2024-05-02''\<rparr>"

definition quota_body :: json where
  "quota_body = JObj [(''error'', JObj [(''message'', JStr ''quota exceeded'')])]"

definition ok_body :: json where
  "ok_body = JObj [(''result'', JStr ''ok'')]"

definition network_error :: js_error where
  "network_error = JsError ''TypeError'' ''Failed to fetch''"

definition remote :: "nat \<Rightarrow> request \<Rightarrow> js_error + response" where
  "remote n r =
     (if authorization r = ''Bearer p1-secret-xyz'' then Inl network_error
      else if authorization r = ''Bearer s1-token-aaaa'' then Inr (Response 500 (Inr quota_body))
      else Inr (Response 200 (Inr ok_body)))"

definition scenario_env :: env where
  "scenario_env =
     \<lparr>localStorage = Map.empty,
      sessionStorage = [''veoAuthTokens'' \<mapsto> ''<S1,S2>''],
      JSON_parse_user =
        (\<lambda>s. if s = ''<user P1>'' then Inr (Some \<lparr>personalAuthToken = Some ''p1-secret-xyz''\<rparr>)
             else Inl (JsError ''SyntaxError'' ''Unexpected token'')),
      JSON_parse_tokens =
        (\<lambda>s. if s = ''<S1,S2>'' then Inr (Some [S1, S2])
             else Inl (JsError ''SyntaxError'' ''Unexpected token'')),
      JSON_stringify_tokens = (\<lambda>ts. if ts = [S1, S2] then ''<S1,S2>'' else ''<tokens>''),
      JSON_stringify = (\<lambda>v. ''<body>''),
      getVeoAuthTokens = Inr None,
      fetch = remote\<rparr>"

definition fallback_env :: env where
  "fallback_env = scenario_env\<lparr>localStorage := [''currentUser'' \<mapsto> ''<user P1>'']\<rparr>"

definition offline_env :: env where
  "offline_env =
     fallback_env\<lparr>sessionStorage := Map.empty, getVeoAuthTokens := Inr (Some []),
                  fetch := (\<lambda>n r. Inl network_error)\<rparr>"

definition sentinel_env :: env where
  "sentinel_env =
     offline_env\<lparr>sessionStorage := [''veoAuthTokens'' \<mapsto> ''<S1 personal>''],
                 JSON_parse_tokens :=
                   (\<lambda>s. Inr (Some [\<lparr>token = ''s1-token-aaaa'', createdAt = ''personal''\<rparr>]))\<rparr>"

definition refresh_env :: env where
  "refresh_env =
     scenario_env\<lparr>sessionStorage := Map.empty, getVeoAuthTokens := Inr (Some [S1, S2])\<rparr>"


section \<open>Properties\<close>

subsection \<open>Traces of the parts\<close>

lemma log_entries_append: "log_entries (xs @ ys) = log_entries xs @ log_entries ys"
  by (induction xs rule: log_entries.induct) simp_all

lemma requests_append: "requests (xs @ ys) = requests xs @ requests ys"
  by (induction xs rule: requests.induct) simp_all

lemma dispatched_append: "dispatched (xs @ ys) = dispatched xs @ dispatched ys"
  by (induction xs rule: dispatched.induct) simp_all

lemma requests_attempt_effects:
  "requests (attempt_effects e ep rb lc i t) = [request_for e ep rb t]"
  by (simp add: attempt_effects_def)

lemma requests_catch_effects: "requests (catch_effects e lc i t err) = []"
  by (simp add: catch_effects_def)

lemma log_entries_attempt_effects:
  "log_entries (attempt_effects e ep rb lc i t) = [attempt_entry e lc i t]"
  by (simp add: attempt_effects_def)

lemma log_entries_catch_effects:
  "log_entries (catch_effects e lc i t err) = [failure_entry e lc i t err]"
  by (simp add: catch_effects_def)

lemma dispatched_attempt_effects: "dispatched (attempt_effects e ep rb lc i t) = []"
  by (simp add: attempt_effects_def)

lemma dispatched_catch_effects:
  "dispatched (catch_effects e lc i t err) =
     (if isPersonal t then [''personalTokenFailed''] else [])"
  by (simp add: catch_effects_def)

lemma build_given:
  "given st \<Longrightarrow>
   build_tokensToTry e st = ([\<lparr>token = the st, createdAt = ''N/A''\<rparr>], sessionStorage e, [])"
  by (simp add: build_tokensToTry_def)

lemma build_cached:
  "\<not> given st \<Longrightarrow> getSharedTokens e \<noteq> [] \<Longrightarrow>
   build_tokensToTry e st =
     (personal_list e @ getSharedTokens e, sessionStorage e,
      [LocalStorage_getItem ''currentUser'', SessionStorage_getItem ''veoAuthTokens''])"
  by (simp add: build_tokensToTry_def Let_def)

lemma build_refetch:
  "\<not> given st \<Longrightarrow> getSharedTokens e = [] \<Longrightarrow>
   build_tokensToTry e st =
     (personal_list e @ fst (refetch e), fst (snd (refetch e)),
      [LocalStorage_getItem ''currentUser'', SessionStorage_getItem ''veoAuthTokens'']
        @ snd (snd (refetch e)))"
  by (simp add: build_tokensToTry_def Let_def case_prod_beta)

lemma refetch_effects_cases:
  "snd (snd (refetch e)) = [GetVeoAuthTokens] \<or>
   (\<exists>s. snd (snd (refetch e)) = [GetVeoAuthTokens, SessionStorage_setItem ''veoAuthTokens'' s])"
  by (simp add: refetch_def split: sum.splits option.splits)

lemma build_effects_silent:
  "requests (snd (snd (build_tokensToTry e st))) = []"
  "log_entries (snd (snd (build_tokensToTry e st))) = []"
  "dispatched (snd (snd (build_tokensToTry e st))) = []"
proof -
  consider "given st" | "\<not> given st" "getSharedTokens e \<noteq> []" | "\<not> given st" "getSharedTokens e = []"
    by blast
  then have "requests (snd (snd (build_tokensToTry e st))) = [] \<and>
    log_entries (snd (snd (build_tokensToTry e st))) = [] \<and>
    dispatched (snd (snd (build_tokensToTry e st))) = []"
  proof cases
    case 1 then show ?thesis by (simp add: build_given)
  next
    case 2 then show ?thesis by (simp add: build_cached)
  next
    case 3 then show ?thesis using refetch_effects_cases [of e] by (auto simp: build_refetch)
  qed
  then show "requests (snd (snd (build_tokensToTry e st))) = []"
    "log_entries (snd (snd (build_tokensToTry e st))) = []"
    "dispatched (snd (snd (build_tokensToTry e st))) = []" by simp_all
qed

lemma run_empty:
  assumes "tokensToTry e st = []"
  shows "fetchWithTokenRotation e ep rb lc st =
           \<lparr>outcome = Inl (no_token_error lc),
            session = fst (snd (build_tokensToTry e st)),
            effects = snd (snd (build_tokensToTry e st))\<rparr>"
  using assms by (simp add: fetchWithTokenRotation_def tokensToTry_def case_prod_beta)

lemma run_nonempty:
  assumes "tokensToTry e st \<noteq> []"
  shows "outcome (fetchWithTokenRotation e ep rb lc st) =
           fst (attempt_loop e ep rb lc 0 (tokensToTry e st) None)"
    and "effects (fetchWithTokenRotation e ep rb lc st) =
           snd (snd (build_tokensToTry e st))
           @ snd (attempt_loop e ep rb lc 0 (tokensToTry e st) None)"
    and "session (fetchWithTokenRotation e ep rb lc st) = fst (snd (build_tokensToTry e st))"
  using assms by (simp_all add: fetchWithTokenRotation_def tokensToTry_def case_prod_beta)

lemma loop_Cons_Inr:
  "try_block e ep rb i t = Inr d \<Longrightarrow>
   attempt_loop e ep rb lc i (t # ts) le =
     (Inr \<lparr>data = d, successfulToken = token t\<rparr>, attempt_effects e ep rb lc i t)"
  by simp

lemma loop_Cons_Inl:
  "try_block e ep rb i t = Inl err \<Longrightarrow>
   attempt_loop e ep rb lc i (t # ts) le =
     (fst (attempt_loop e ep rb lc (Suc i) ts (Some err)),
      attempt_effects e ep rb lc i t @ catch_effects e lc i t err
        @ snd (attempt_loop e ep rb lc (Suc i) ts (Some err)))"
  by (simp add: case_prod_beta)

lemma loop_success:
  assumes "i < length toks"
    and "\<forall>j<i. isl (try_block e ep rb (k + j) (toks ! j))"
    and "try_block e ep rb (k + i) (toks ! i) = Inr d"
  shows "attempt_loop e ep rb lc k toks le =
           (Inr \<lparr>data = d, successfulToken = token (toks ! i)\<rparr>,
            concat (map (\<lambda>j. attempt_effects e ep rb lc (k + j) (toks ! j)
                              @ catch_effects e lc (k + j) (toks ! j)
                                  (projl (try_block e ep rb (k + j) (toks ! j)))) [0..<i])
            @ attempt_effects e ep rb lc (k + i) (toks ! i))"
  using assms
proof (induction toks arbitrary: i k le)
  case Nil
  then show ?case by simp
next
  case (Cons t ts)
  show ?case
  proof (cases i)
    case 0
    with Cons.prems show ?thesis by (simp del: attempt_loop.simps add: loop_Cons_Inr)
  next
    case (Suc i')
    from Cons.prems(2) Suc have "isl (try_block e ep rb (k + 0) ((t # ts) ! 0))" by blast
    then obtain err where err: "try_block e ep rb k t = Inl err"
      by (cases "try_block e ep rb k t") auto
    have "i' < length ts" using Cons.prems(1) Suc by simp
    moreover have "\<forall>j<i'. isl (try_block e ep rb (Suc k + j) (ts ! j))"
    proof (intro allI impI)
      fix j assume "j < i'"
      then have "Suc j < i" using Suc by simp
      with Cons.prems(2) have "isl (try_block e ep rb (k + Suc j) ((t # ts) ! Suc j))" by blast
      then show "isl (try_block e ep rb (Suc k + j) (ts ! j))" by simp
    qed
    moreover have "try_block e ep rb (Suc k + i') (ts ! i') = Inr d"
      using Cons.prems(3) Suc by simp
    ultimately have IH: "attempt_loop e ep rb lc (Suc k) ts (Some err) =
           (Inr \<lparr>data = d, successfulToken = token (ts ! i')\<rparr>,
            concat (map (\<lambda>j. attempt_effects e ep rb lc (Suc k + j) (ts ! j)
                              @ catch_effects e lc (Suc k + j) (ts ! j)
                                  (projl (try_block e ep rb (Suc k + j) (ts ! j)))) [0..<i'])
            @ attempt_effects e ep rb lc (Suc k + i') (ts ! i'))"
      by (rule Cons.IH)
    show ?thesis
      unfolding loop_Cons_Inl [OF err] IH Suc
      by (simp add: map_upt_Suc err del: upt_Suc)
  qed
qed

lemma loop_all_fail:
  assumes "\<forall>j<length toks. isl (try_block e ep rb (k + j) (toks ! j))"
  shows "attempt_loop e ep rb lc k toks (Some e0) =
           (Inl (if toks = [] then e0
                 else projl (try_block e ep rb (k + (length toks - 1)) (last toks))),
            concat (map (\<lambda>j. attempt_effects e ep rb lc (k + j) (toks ! j)
                              @ catch_effects e lc (k + j) (toks ! j)
                                  (projl (try_block e ep rb (k + j) (toks ! j))))
                        [0..<length toks])
            @ [AddLogEntry (exhaustion_entry lc
                 (if toks = [] then e0
                  else projl (try_block e ep rb (k + (length toks - 1)) (last toks))))])"
  using assms
proof (induction toks arbitrary: k e0)
  case Nil
  then show ?case by simp
next
  case (Cons t ts)
  from Cons.prems have "isl (try_block e ep rb (k + 0) ((t # ts) ! 0))" by blast
  then obtain err where err: "try_block e ep rb k t = Inl err"
    by (cases "try_block e ep rb k t") auto
  have "\<forall>j<length ts. isl (try_block e ep rb (Suc k + j) (ts ! j))"
  proof (intro allI impI)
    fix j assume "j < length ts"
    then have "Suc j < length (t # ts)" by simp
    with Cons.prems have "isl (try_block e ep rb (k + Suc j) ((t # ts) ! Suc j))" by blast
    then show "isl (try_block e ep rb (Suc k + j) (ts ! j))" by simp
  qed
  then have IH: "attempt_loop e ep rb lc (Suc k) ts (Some err) =
           (Inl (if ts = [] then err
                 else projl (try_block e ep rb (Suc k + (length ts - 1)) (last ts))),
            concat (map (\<lambda>j. attempt_effects e ep rb lc (Suc k + j) (ts ! j)
                              @ catch_effects e lc (Suc k + j) (ts ! j)
                                  (projl (try_block e ep rb (Suc k + j) (ts ! j))))
                        [0..<length ts])
            @ [AddLogEntry (exhaustion_entry lc
                 (if ts = [] then err
                  else projl (try_block e ep rb (Suc k + (length ts - 1)) (last ts))))])"
    by (rule Cons.IH)
  show ?case
    unfolding loop_Cons_Inl [OF err] IH
    by (cases ts) (simp_all add: map_upt_Suc err del: upt_Suc)
qed

lemma loop_lastError_irrelevant:
  "toks \<noteq> [] \<Longrightarrow> attempt_loop e ep rb lc k toks le = attempt_loop e ep rb lc k toks le'"
  by (cases toks) simp_all


lemma try_block_Inr_iff:
  "try_block e ep rb i t = Inr d \<longleftrightarrow>
     (\<exists>code. fetch e i (request_for e ep rb t) = Inr (Response code (Inr d))
             \<and> 200 \<le> code \<and> code \<le> 299)"
proof (cases "fetch e i (request_for e ep rb t)")
  case (Inl err)
  then show ?thesis by (simp add: try_block_def)
next
  case (Inr resp)
  then show ?thesis
    by (cases resp) (auto simp: try_block_def ok_def split: sum.splits)
qed

text \<open>An attempt fails when the request is rejected, or the body does not parse, or the
  status is outside 200 to 299.\<close>

lemma try_block_fails_iff:
  "isl (try_block e ep rb i t) \<longleftrightarrow>
     isl (fetch e i (request_for e ep rb t))
     \<or> (\<exists>code perr. fetch e i (request_for e ep rb t) = Inr (Response code (Inl perr)))
     \<or> (\<exists>code d. fetch e i (request_for e ep rb t) = Inr (Response code (Inr d))
                  \<and> \<not> (200 \<le> code \<and> code \<le> 299))"
proof (cases "fetch e i (request_for e ep rb t)")
  case (Inl err)
  then show ?thesis by (simp add: try_block_def)
next
  case (Inr resp)
  then show ?thesis
    by (cases resp) (auto simp: try_block_def ok_def split: sum.splits)
qed

lemma concat_attempts_requests:
  "requests (concat (map (\<lambda>j. attempt_effects e ep rb lc (k + j) (toks ! j)
                              @ catch_effects e lc (k + j) (toks ! j) (errs j)) [0..<n])) =
     map (\<lambda>j. request_for e ep rb (toks ! j)) [0..<n]"
  by (induction n)
     (simp_all add: requests_append requests_attempt_effects requests_catch_effects)

lemma concat_attempts_log_entries:
  "log_entries (concat (map (\<lambda>j. attempt_effects e ep rb lc (k + j) (toks ! j)
                              @ catch_effects e lc (k + j) (toks ! j) (errs j)) [0..<n])) =
     concat (map (\<lambda>j. [attempt_entry e lc (k + j) (toks ! j),
                       failure_entry e lc (k + j) (toks ! j) (errs j)]) [0..<n])"
  by (induction n)
     (simp_all add: log_entries_append log_entries_attempt_effects log_entries_catch_effects)

lemma status_attempt_entry [simp]: "status (attempt_entry e lc i t) = Success"
  by (simp add: attempt_entry_def)

lemma status_failure_entry [simp]: "status (failure_entry e lc i t err) = Error"
  by (simp add: failure_entry_def)

lemma status_exhaustion_entry [simp]: "status (exhaustion_entry lc err) = Error"
  by (simp add: exhaustion_entry_def)

lemma error_entries_of_pairs:
  "filter (\<lambda>x. status x = Error)
     (concat (map (\<lambda>j. [attempt_entry e lc (k + j) (toks ! j),
                       failure_entry e lc (k + j) (toks ! j) (errs j)]) [0..<n])) =
   map (\<lambda>j. failure_entry e lc (k + j) (toks ! j) (errs j)) [0..<n]"
  by (induction n) simp_all

subsection \<open>The first success ends the rotation\<close>

text \<open>
  Claim C1. Let the candidate list be non-empty and let the attempt with candidate \<open>i\<close>
  be the first that succeeds: the attempts before it fail, and the request for candidate
  \<open>i\<close> is answered with a 2xx status and a body that parses as JSON. Then the call
  returns that body together with the token of candidate \<open>i\<close>; the requests issued
  are exactly those for the candidates \<open>0\<close> to \<open>i\<close>, in this order, and the
  request for candidate \<open>i\<close> is the last thing the call does. So no candidate after
  position \<open>i\<close> is attempted.
\<close>

theorem first_success_is_returned:
  assumes "i < length (tokensToTry e st)"
    and "\<forall>j<i. isl (try_block e ep rb j (tokensToTry e st ! j))"
    and "fetch e i (request_for e ep rb (tokensToTry e st ! i)) = Inr (Response code (Inr d))"
    and "200 \<le> code" and "code \<le> 299"
  shows "outcome (fetchWithTokenRotation e ep rb lc st) =
           Inr \<lparr>data = d, successfulToken = token (tokensToTry e st ! i)\<rparr>
       \<and> requests (effects (fetchWithTokenRotation e ep rb lc st)) =
           map (\<lambda>j. request_for e ep rb (tokensToTry e st ! j)) [0..<Suc i]
       \<and> last (effects (fetchWithTokenRotation e ep rb lc st)) =
           Fetch (request_for e ep rb (tokensToTry e st ! i))"
proof -
  let ?toks = "tokensToTry e st"
  have ne: "?toks \<noteq> []" using assms(1) by auto
  have ok: "try_block e ep rb (0 + i) (?toks ! i) = Inr d"
    using assms(3-5) by (auto simp: try_block_Inr_iff)
  have fails: "\<forall>j<i. isl (try_block e ep rb (0 + j) (?toks ! j))"
    using assms(2) by simp
  note loop = loop_success [OF assms(1) fails ok, of lc None]
  show ?thesis
    using concat_attempts_requests [of e ep rb lc 0 ?toks _ i]
    by (simp add: run_nonempty [OF ne] loop requests_append build_effects_silent
          requests_attempt_effects attempt_effects_def del: upt_Suc)
       (simp add: upt_Suc)
qed

theorem first_success_is_returned_witness:
  "tokensToTry scenario_env None = [S1, S2]
   \<and> isl (try_block scenario_env ''/api/veo/generate-t2v'' JNull 0 S1)
   \<and> fetch scenario_env 1 (request_for scenario_env ''/api/veo/generate-t2v'' JNull S2) =
       Inr (Response 200 (Inr ok_body))
   \<and> outcome (fetchWithTokenRotation scenario_env ''/api/veo/generate-t2v'' JNull ''VEO T2V'' None) =
       Inr \<lparr>data = ok_body, successfulToken = ''s2-token-bbbb''\<rparr>
   \<and> requests (effects (fetchWithTokenRotation scenario_env ''/api/veo/generate-t2v'' JNull
                          ''VEO T2V'' None)) =
       [request_for scenario_env ''/api/veo/generate-t2v'' JNull S1,
        request_for scenario_env ''/api/veo/generate-t2v'' JNull S2]"
proof -
  have toks: "tokensToTry scenario_env None = [S1, S2]"
    by (simp add: tokensToTry_def build_tokensToTry_def given_def getPersonalToken_def
          getSharedTokens_def scenario_env_def)
  have f0: "isl (try_block scenario_env ''/api/veo/generate-t2v'' JNull 0 S1)"
    by (simp add: try_block_def scenario_env_def remote_def request_for_def S1_def ok_def
          quota_body_def)
  have f1: "fetch scenario_env 1 (request_for scenario_env ''/api/veo/generate-t2v'' JNull S2) =
       Inr (Response 200 (Inr ok_body))"
    by (simp add: scenario_env_def remote_def request_for_def S2_def)
  have h1: "1 < length (tokensToTry scenario_env None)" by (simp add: toks)
  have h2: "\<forall>j<1. isl (try_block scenario_env ''/api/veo/generate-t2v'' JNull j
                        (tokensToTry scenario_env None ! j))"
    using f0 by (simp add: toks)
  have h3: "fetch scenario_env 1 (request_for scenario_env ''/api/veo/generate-t2v'' JNull
              (tokensToTry scenario_env None ! 1)) = Inr (Response 200 (Inr ok_body))"
    using f1 by (simp add: toks)
  show ?thesis
    using first_success_is_returned [OF h1 h2 h3, of "''VEO T2V''"] toks f0 f1
    by (simp add: S2_def upt_rec [of 0] upt_rec [of 1])
qed

subsection \<open>Exhaustion raises the last error\<close>

text \<open>
  Claim C2. Let the candidate list be non-empty and let every attempt fail (the request is
  rejected, or the body does not parse, or the status is not 2xx). Then the call rejects
  with the error of the last candidate's attempt; the last thing it does is to log the
  exhaustion entry, which carries that error; the log entries with status \<open>Error\<close> are
  exactly one failure entry per candidate, in order, followed by the exhaustion entry; and
  one request was issued per candidate.
\<close>

theorem exhaustion_raises_last_error:
  assumes "toks = tokensToTry e st"
    and "toks \<noteq> []"
    and "\<forall>j<length toks. isl (try_block e ep rb j (toks ! j))"
  shows "outcome (fetchWithTokenRotation e ep rb lc st) =
           Inl (projl (try_block e ep rb (length toks - 1) (last toks)))
       \<and> last (effects (fetchWithTokenRotation e ep rb lc st)) =
           AddLogEntry (exhaustion_entry lc
             (projl (try_block e ep rb (length toks - 1) (last toks))))
       \<and> filter (\<lambda>x. status x = Error)
            (log_entries (effects (fetchWithTokenRotation e ep rb lc st))) =
           map (\<lambda>j. failure_entry e lc j (toks ! j) (projl (try_block e ep rb j (toks ! j))))
               [0..<length toks]
           @ [exhaustion_entry lc (projl (try_block e ep rb (length toks - 1) (last toks)))]
       \<and> requests (effects (fetchWithTokenRotation e ep rb lc st)) =
           map (\<lambda>j. request_for e ep rb (toks ! j)) [0..<length toks]"
proof -
  have ne: "tokensToTry e st \<noteq> []" using assms(1,2) by simp
  have fails: "\<forall>j<length toks. isl (try_block e ep rb (0 + j) (toks ! j))"
    using assms(3) by simp
  have loop: "attempt_loop e ep rb lc 0 toks None =
          attempt_loop e ep rb lc 0 toks (Some (JsError [] []))"
    using assms(2) by (rule loop_lastError_irrelevant)
  note all = loop_all_fail [OF fails, of lc "JsError [] []"]
  show ?thesis
    using assms(2)
      concat_attempts_log_entries [of e ep rb lc 0 toks
        "\<lambda>j. projl (try_block e ep rb j (toks ! j))" "length toks"]
      concat_attempts_requests [of e ep rb lc 0 toks
        "\<lambda>j. projl (try_block e ep rb j (toks ! j))" "length toks"]
      error_entries_of_pairs [of e lc 0 toks
        "\<lambda>j. projl (try_block e ep rb j (toks ! j))" "length toks"]
    by (simp add: run_nonempty [OF ne] assms(1) [symmetric] loop all
          log_entries_append requests_append build_effects_silent)
qed

theorem exhaustion_raises_last_error_witness:
  "tokensToTry (fallback_env\<lparr>JSON_parse_tokens := (\<lambda>s. Inr (Some [S1]))\<rparr>) None = [P1, S1]
   \<and> try_block (fallback_env\<lparr>JSON_parse_tokens := (\<lambda>s. Inr (Some [S1]))\<rparr>)
         ''/api/veo/status'' JNull 0 P1 = Inl network_error
   \<and> try_block (fallback_env\<lparr>JSON_parse_tokens := (\<lambda>s. Inr (Some [S1]))\<rparr>)
         ''/api/veo/status'' JNull 1 S1 = Inl (JsError ''Error'' ''quota exceeded'')
   \<and> outcome (fetchWithTokenRotation (fallback_env\<lparr>JSON_parse_tokens := (\<lambda>s. Inr (Some [S1]))\<rparr>)
                ''/api/veo/status'' JNull ''VEO'' None) =
       Inl (JsError ''Error'' ''quota exceeded'')
   \<and> map prompt (filter (\<lambda>x. status x = Error)
        (log_entries (effects (fetchWithTokenRotation
           (fallback_env\<lparr>JSON_parse_tokens := (\<lambda>s. Inr (Some [S1]))\<rparr>)
           ''/api/veo/status'' JNull ''VEO'' None)))) =
       [''Personal Token failed'', ''Shared Token #1 failed'',
        ''All available auth tokens failed.'']"
proof -
  let ?e = "fallback_env\<lparr>JSON_parse_tokens := (\<lambda>s. Inr (Some [S1]))\<rparr>"
  have pers: "getPersonalToken ?e = Some P1"
    by (simp add: getPersonalToken_def fallback_env_def scenario_env_def P1_def)
  have shared: "getSharedTokens ?e = [S1]"
    by (simp add: getSharedTokens_def fallback_env_def scenario_env_def)
  have toks: "[P1, S1] = tokensToTry ?e None"
    by (simp add: tokensToTry_def build_tokensToTry_def given_def pers shared)
  have f0: "try_block ?e ''/api/veo/status'' JNull 0 P1 = Inl network_error"
    by (simp add: try_block_def fallback_env_def scenario_env_def remote_def request_for_def
          P1_def)
  have f1: "try_block ?e ''/api/veo/status'' JNull 1 S1 = Inl (JsError ''Error'' ''quota exceeded'')"
    by (simp add: try_block_def fallback_env_def scenario_env_def remote_def request_for_def
          S1_def ok_def quota_body_def errorMessage_def nested_message_def truthy_prop_def
          throw_new_Error_def)
  have h3: "\<forall>j<length [P1, S1]. isl (try_block ?e ''/api/veo/status'' JNull j ([P1, S1] ! j))"
    using f0 f1 by (simp add: less_Suc_eq)
  have id0: "tokenIdentifier ?e 0 P1 = ''Personal Token''"
    by (simp add: tokenIdentifier_def isPersonal_def P1_def)
  have "\<not> isPersonal S1"
    by (simp add: isPersonal_def S1_def)
  then have id1: "tokenIdentifier ?e (Suc 0) S1 = ''Shared Token #1''"
    by (simp add: tokenIdentifier_def pers show_int_def show_nat.simps)
  show ?thesis
    using exhaustion_raises_last_error [OF toks _ h3, of "''VEO''"] toks [symmetric] f0 f1
    by (simp add: upt_rec [of 0] upt_rec [of 1] failure_entry_def exhaustion_entry_def
          id0 id1)
qed

subsection \<open>No token, no request\<close>

lemma tokensToTry_empty_iff:
  "tokensToTry e st = [] \<longleftrightarrow>
     \<not> given st \<and> getPersonalToken e = None \<and> getSharedTokens e = [] \<and> fst (refetch e) = []"
proof (cases "given st")
  case True
  then show ?thesis by (simp add: tokensToTry_def build_given)
next
  case False
  then show ?thesis
    by (cases "getSharedTokens e = []")
       (auto simp: tokensToTry_def build_cached build_refetch split: option.splits)
qed


text \<open>
  Claim C3. When the construction of the candidate list yields no candidate, the call
  rejects at once with the error \<open>Auth Token is required for <logContext>. Please set one
  in Settings.\<close>, whose message contains the context argument; it issues no request, logs
  no entry and dispatches no event. The list is empty exactly when no usable explicit token
  was passed, no personal token is configured, the session holds no shared token and the
  re-fetch provides none.
\<close>

theorem no_tokens_no_request:
  assumes "tokensToTry e st = []"
  shows "outcome (fetchWithTokenRotation e ep rb lc st) =
           Inl (JsError ''Error''
                  (''Auth Token is required for '' @ lc @ ''. Please set one in Settings.''))
       \<and> requests (effects (fetchWithTokenRotation e ep rb lc st)) = []
       \<and> log_entries (effects (fetchWithTokenRotation e ep rb lc st)) = []
       \<and> dispatched (effects (fetchWithTokenRotation e ep rb lc st)) = []"
  by (simp add: run_empty [OF assms] no_token_error_def build_effects_silent)

theorem no_tokens_no_request_witness:
  "tokensToTry (scenario_env\<lparr>sessionStorage := Map.empty\<rparr>) None = []
   \<and> outcome (fetchWithTokenRotation (scenario_env\<lparr>sessionStorage := Map.empty\<rparr>)
               ''/api/veo/generate-t2v'' JNull ''VEO T2V'' None) =
       Inl (JsError ''Error'' ''Auth Token is required for VEO T2V. Please set one in Settings.'')
   \<and> requests (effects (fetchWithTokenRotation (scenario_env\<lparr>sessionStorage := Map.empty\<rparr>)
               ''/api/veo/generate-t2v'' JNull ''VEO T2V'' None)) = []"
proof -
  have toks: "tokensToTry (scenario_env\<lparr>sessionStorage := Map.empty\<rparr>) None = []"
    by (simp add: tokensToTry_def build_tokensToTry_def given_def getPersonalToken_def
          getSharedTokens_def refetch_def scenario_env_def)
  show ?thesis
    using no_tokens_no_request [OF toks, of "''/api/veo/generate-t2v''" JNull "''VEO T2V''"] toks
    by simp
qed

lemma tokensToTry_given:
  "given st \<Longrightarrow> tokensToTry e st = [\<lparr>token = the st, createdAt = ''N/A''\<rparr>]"
  by (simp add: tokensToTry_def build_given)

lemma tokensToTry_rotation:
  "\<not> given st \<Longrightarrow>
   tokensToTry e st =
     personal_list e @ (if getSharedTokens e = [] then fst (refetch e) else getSharedTokens e)"
  by (simp add: tokensToTry_def build_cached build_refetch)

lemma getPersonalToken_isPersonal: "getPersonalToken e = Some p \<Longrightarrow> isPersonal p"
  by (auto simp: getPersonalToken_def isPersonal_def split: option.splits if_splits sum.splits)

lemma loop_dispatched_none:
  "\<forall>t\<in>set toks. \<not> isPersonal t \<Longrightarrow>
   dispatched (snd (attempt_loop e ep rb lc k toks le)) = []"
proof (induction toks arbitrary: k le)
  case Nil
  then show ?case by (cases le) simp_all
next
  case (Cons t ts)
  show ?case
  proof (cases "try_block e ep rb k t")
    case (Inl err)
    then show ?thesis
      using Cons
      by (simp add: loop_Cons_Inl dispatched_append dispatched_attempt_effects
            dispatched_catch_effects del: attempt_loop.simps)
  next
    case (Inr d)
    then show ?thesis
      by (simp add: loop_Cons_Inr dispatched_attempt_effects del: attempt_loop.simps)
  qed
qed

lemma single_candidate_requests:
  "requests (snd (attempt_loop e ep rb lc k [t] le)) = [request_for e ep rb t]"
  by (cases "try_block e ep rb k t")
     (simp_all add: requests_append requests_attempt_effects requests_catch_effects
        case_prod_beta)

subsection \<open>An explicit token\<close>

text \<open>
  Claim C4, as stated, fails for the empty string: \<open>if (specificToken)\<close> on line 79
  treats it like a missing argument. In the environment \<open>offline_env\<close> a call with the
  explicit token \<open>''\<close> reads both stores, asks the token service, and tries the personal
  token.
\<close>

theorem empty_explicit_token_rotates:
  "tokensToTry offline_env (Some []) = [P1]
   \<and> snd (snd (build_tokensToTry offline_env (Some []))) =
       [LocalStorage_getItem ''currentUser'', SessionStorage_getItem ''veoAuthTokens'',
        GetVeoAuthTokens]"
proof -
  have pers: "getPersonalToken offline_env = Some P1"
    by (simp add: getPersonalToken_def offline_env_def fallback_env_def scenario_env_def P1_def)
  have shared: "getSharedTokens offline_env = []"
    by (simp add: getSharedTokens_def offline_env_def)
  have re: "refetch offline_env = ([], sessionStorage offline_env, [GetVeoAuthTokens])"
    by (simp add: refetch_def offline_env_def)
  show ?thesis
    by (simp add: tokensToTry_def build_tokensToTry_def given_def pers shared re)
qed

text \<open>
  Claim C4, amended. When the explicit token is a non-empty string, the candidate list is
  the one token \<open>{ token: specificToken, createdAt: 'N/A' }\<close>, and building the list
  reads no store, asks no token service and leaves the session store as it was, whatever
  the stores hold. The call then issues exactly one request, with that token. (The personal
  store is read later, on line 118, for the label of the attempt.)
\<close>

theorem explicit_token_is_the_only_candidate:
  assumes "t \<noteq> []"
  shows "build_tokensToTry e (Some t) =
           ([\<lparr>token = t, createdAt = ''N/A''\<rparr>], sessionStorage e, [])
       \<and> tokensToTry e (Some t) = [\<lparr>token = t, createdAt = ''N/A''\<rparr>]
       \<and> session (fetchWithTokenRotation e ep rb lc (Some t)) = sessionStorage e
       \<and> requests (effects (fetchWithTokenRotation e ep rb lc (Some t))) =
           [request_for e ep rb \<lparr>token = t, createdAt = ''N/A''\<rparr>]"
proof -
  have g: "given (Some t)" using assms by (simp add: given_def)
  have toks: "tokensToTry e (Some t) = [\<lparr>token = t, createdAt = ''N/A''\<rparr>]"
    using tokensToTry_given [OF g, of e] by simp
  then have ne: "tokensToTry e (Some t) \<noteq> []" by simp
  show ?thesis
    using build_given [OF g, of e]
    by (simp add: toks run_nonempty [OF ne] single_candidate_requests
          del: attempt_loop.simps)
qed

theorem explicit_token_is_the_only_candidate_witness:
  "''s2-token-bbbb'' \<noteq> []
   \<and> getPersonalToken fallback_env = Some P1
   \<and> getSharedTokens fallback_env = [S1, S2]
   \<and> build_tokensToTry fallback_env (Some ''s2-token-bbbb'') =
       ([\<lparr>token = ''s2-token-bbbb'', createdAt = ''N/A''\<rparr>], sessionStorage fallback_env, [])
   \<and> requests (effects (fetchWithTokenRotation fallback_env ''/api/veo/status'' JNull ''VEO''
                          (Some ''s2-token-bbbb''))) =
       [request_for fallback_env ''/api/veo/status'' JNull
          \<lparr>token = ''s2-token-bbbb'', createdAt = ''N/A''\<rparr>]"
proof -
  have ne: "''s2-token-bbbb'' \<noteq> []" by simp
  have pers: "getPersonalToken fallback_env = Some P1"
    by (simp add: getPersonalToken_def fallback_env_def scenario_env_def P1_def)
  have shared: "getSharedTokens fallback_env = [S1, S2]"
    by (simp add: getSharedTokens_def fallback_env_def scenario_env_def)
  show ?thesis
    using explicit_token_is_the_only_candidate
            [OF ne, of fallback_env "''/api/veo/status''" JNull "''VEO''"] pers shared
    by simp
qed

subsection \<open>The event for a failed personal token\<close>

text \<open>
  Claim C5, as stated, fails when a shared token carries the mark of the personal one: the
  loop takes a token for personal when its \<open>createdAt\<close> is \<open>'personal'\<close> (line 117),
  wherever it came from. In \<open>sentinel_env\<close> the personal token \<open>P1\<close> is configured,
  the session holds one shared token with that \<open>createdAt\<close>, and every request fails:
  the call dispatches the event twice, once for the personal token and once for the shared
  one.
\<close>

theorem shared_token_with_personal_mark_dispatches:
  "getPersonalToken sentinel_env = Some P1
   \<and> getSharedTokens sentinel_env = [\<lparr>token = ''s1-token-aaaa'', createdAt = ''personal''\<rparr>]
   \<and> tokensToTry sentinel_env None =
       [P1, \<lparr>token = ''s1-token-aaaa'', createdAt = ''personal''\<rparr>]
   \<and> dispatched (effects (fetchWithTokenRotation sentinel_env ''/api/veo/status'' JNull ''VEO''
                            None)) = [''personalTokenFailed'', ''personalTokenFailed'']"
proof -
  let ?s = "\<lparr>token = ''s1-token-aaaa'', createdAt = ''personal''\<rparr>"
  have pers: "getPersonalToken sentinel_env = Some P1"
    by (simp add: getPersonalToken_def sentinel_env_def offline_env_def fallback_env_def
          scenario_env_def P1_def)
  have shared: "getSharedTokens sentinel_env = [?s]"
    by (simp add: getSharedTokens_def sentinel_env_def)
  have toks: "tokensToTry sentinel_env None = [P1, ?s]"
    by (simp add: tokensToTry_def build_tokensToTry_def given_def pers shared)
  have f: "try_block sentinel_env ''/api/veo/status'' JNull i t = Inl network_error" for i t
    by (simp add: try_block_def sentinel_env_def offline_env_def)
  have ne: "tokensToTry sentinel_env None \<noteq> []" by (simp add: toks)
  have p: "isPersonal P1" "isPersonal ?s"
    by (simp_all add: isPersonal_def P1_def)
  have "dispatched (effects (fetchWithTokenRotation sentinel_env ''/api/veo/status'' JNull
                               ''VEO'' None)) = [''personalTokenFailed'', ''personalTokenFailed'']"
    by (simp add: run_nonempty [OF ne] build_effects_silent dispatched_append toks f p
          case_prod_beta dispatched_attempt_effects dispatched_catch_effects)
  then show ?thesis using pers shared toks by simp
qed

text \<open>
  Claim C5, amended. Provided no shared token (from the session or from the re-fetch) has
  the \<open>createdAt\<close> value \<open>'personal'\<close>: the call dispatches \<open>personalTokenFailed\<close>
  exactly once when the personal token is in the candidate list (no usable explicit token,
  a personal token configured) and its attempt fails, whether a later shared token succeeds
  or the call rejects; and it dispatches nothing otherwise, in particular when the personal
  attempt succeeds and when only shared tokens fail.
\<close>

theorem personal_failure_dispatches_once:
  assumes "\<forall>t\<in>set (getSharedTokens e). \<not> isPersonal t"
    and "\<forall>t\<in>set (fst (refetch e)). \<not> isPersonal t"
  shows "dispatched (effects (fetchWithTokenRotation e ep rb lc st)) =
           (if \<not> given st \<and> getPersonalToken e \<noteq> None
               \<and> isl (try_block e ep rb 0 (the (getPersonalToken e)))
            then [''personalTokenFailed''] else [])"
proof (cases "tokensToTry e st = []")
  case True
  then have "getPersonalToken e = None" by (simp add: tokensToTry_empty_iff)
  then show ?thesis by (simp add: run_empty [OF True] build_effects_silent)
next
  case ne: False
  let ?shared = "if getSharedTokens e = [] then fst (refetch e) else getSharedTokens e"
  have sh: "\<forall>t\<in>set ?shared. \<not> isPersonal t" using assms by simp
  have eff: "dispatched (effects (fetchWithTokenRotation e ep rb lc st)) =
               dispatched (snd (attempt_loop e ep rb lc 0 (tokensToTry e st) None))"
    by (simp add: run_nonempty [OF ne] dispatched_append build_effects_silent)
  show ?thesis
  proof (cases "given st")
    case True
    have "\<forall>t\<in>set (tokensToTry e st). \<not> isPersonal t"
      by (simp add: tokensToTry_given [OF True] isPersonal_def)
    then show ?thesis using True by (simp add: eff loop_dispatched_none)
  next
    case False
    show ?thesis
    proof (cases "getPersonalToken e")
      case None
      then have "tokensToTry e st = ?shared" by (simp add: tokensToTry_rotation [OF False])
      then have "\<forall>t\<in>set (tokensToTry e st). \<not> isPersonal t" using sh by simp
      then show ?thesis using None by (simp add: eff loop_dispatched_none)
    next
      case (Some p)
      then have toks: "tokensToTry e st = p # ?shared"
        by (simp add: tokensToTry_rotation [OF False])
      have pp: "isPersonal p" using Some by (rule getPersonalToken_isPersonal)
      show ?thesis
      proof (cases "try_block e ep rb 0 p")
        case (Inl err)
        then show ?thesis
          using False Some pp sh
          by (simp add: eff toks loop_Cons_Inl dispatched_append dispatched_attempt_effects
                dispatched_catch_effects loop_dispatched_none del: attempt_loop.simps)
      next
        case (Inr d)
        then show ?thesis
          using False Some
          by (simp add: eff toks loop_Cons_Inr dispatched_attempt_effects
                del: attempt_loop.simps)
      qed
    qed
  qed
qed


theorem personal_failure_dispatches_once_witness:
  "getSharedTokens fallback_env = [S1, S2]
   \<and> \<not> isPersonal S1 \<and> \<not> isPersonal S2
   \<and> fst (refetch fallback_env) = []
   \<and> tokensToTry fallback_env None = [P1, S1, S2]
   \<and> try_block fallback_env ''/api/veo/generate-t2v'' JNull 0 P1 = Inl network_error
   \<and> outcome (fetchWithTokenRotation fallback_env ''/api/veo/generate-t2v'' JNull ''VEO T2V''
                None) = Inr \<lparr>data = ok_body, successfulToken = ''s2-token-bbbb''\<rparr>
   \<and> dispatched (effects (fetchWithTokenRotation fallback_env ''/api/veo/generate-t2v'' JNull
                            ''VEO T2V'' None)) = [''personalTokenFailed'']"
proof -
  let ?ep = "''/api/veo/generate-t2v''"
  have pers: "getPersonalToken fallback_env = Some P1"
    by (simp add: getPersonalToken_def fallback_env_def scenario_env_def P1_def)
  have shared: "getSharedTokens fallback_env = [S1, S2]"
    by (simp add: getSharedTokens_def fallback_env_def scenario_env_def)
  have re: "fst (refetch fallback_env) = []"
    by (simp add: refetch_def fallback_env_def scenario_env_def)
  have toks: "tokensToTry fallback_env None = [P1, S1, S2]"
    by (simp add: tokensToTry_def build_tokensToTry_def given_def pers shared)
  have h1: "\<forall>t\<in>set (getSharedTokens fallback_env). \<not> isPersonal t"
    by (simp add: shared isPersonal_def S1_def S2_def)
  have h2: "\<forall>t\<in>set (fst (refetch fallback_env)). \<not> isPersonal t"
    by (simp add: re)
  have f0: "try_block fallback_env ?ep JNull 0 P1 = Inl network_error"
    by (simp add: try_block_def fallback_env_def scenario_env_def remote_def request_for_def
          P1_def)
  have f1: "isl (try_block fallback_env ?ep JNull (Suc 0) S1)"
    by (simp add: try_block_def fallback_env_def scenario_env_def remote_def request_for_def
          S1_def ok_def quota_body_def)
  have f2: "try_block fallback_env ?ep JNull (Suc (Suc 0)) S2 = Inr ok_body"
    by (simp add: try_block_def fallback_env_def scenario_env_def remote_def request_for_def
          S2_def ok_def)
  have "\<forall>j<Suc (Suc 0). isl (try_block fallback_env ?ep JNull (0 + j) ([P1, S1, S2] ! j))"
    using f0 f1 by (simp add: less_Suc_eq)
  moreover have "try_block fallback_env ?ep JNull (0 + Suc (Suc 0)) ([P1, S1, S2] ! Suc (Suc 0)) =
      Inr ok_body"
    using f2 by simp
  ultimately have "fst (attempt_loop fallback_env ?ep JNull ''VEO T2V'' 0 [P1, S1, S2] None) =
      Inr \<lparr>data = ok_body, successfulToken = token ([P1, S1, S2] ! Suc (Suc 0))\<rparr>"
    by (subst loop_success [of "Suc (Suc 0)" "[P1, S1, S2]" fallback_env ?ep JNull 0 ok_body])
       simp_all
  then have out: "outcome (fetchWithTokenRotation fallback_env ?ep JNull ''VEO T2V'' None) =
      Inr \<lparr>data = ok_body, successfulToken = ''s2-token-bbbb''\<rparr>"
    using toks by (simp add: run_nonempty S2_def del: attempt_loop.simps)
  show ?thesis
    using personal_failure_dispatches_once [OF h1 h2, of ?ep JNull "''VEO T2V''" None]
      shared re toks f0 out pers
    by (simp add: given_def isPersonal_def S1_def S2_def)
qed

subsection \<open>An explicit token is never taken for the personal one\<close>

text \<open>
  Claim C10. When a non-empty explicit token is passed, the call never dispatches
  \<open>personalTokenFailed\<close>, also when its attempt fails and also when the token equals the
  configured personal token: the one candidate is built with \<open>createdAt = 'N/A'\<close>, and a
  candidate counts as personal only when its \<open>createdAt\<close> is \<open>'personal'\<close>. (With the
  empty string no explicit candidate exists; see C4.)
\<close>

theorem explicit_token_never_dispatches:
  assumes "t \<noteq> []"
  shows "dispatched (effects (fetchWithTokenRotation e ep rb lc (Some t))) = []
       \<and> (\<forall>c\<in>set (tokensToTry e (Some t)). createdAt c = ''N/A'' \<and> \<not> isPersonal c)"
proof -
  have g: "given (Some t)" using assms by (simp add: given_def)
  have toks: "tokensToTry e (Some t) = [\<lparr>token = t, createdAt = ''N/A''\<rparr>]"
    using tokensToTry_given [OF g, of e] by simp
  then have ne: "tokensToTry e (Some t) \<noteq> []" by simp
  have np: "\<forall>c\<in>set (tokensToTry e (Some t)). createdAt c = ''N/A'' \<and> \<not> isPersonal c"
    by (simp add: toks isPersonal_def)
  then have "dispatched (snd (attempt_loop e ep rb lc 0 (tokensToTry e (Some t)) None)) = []"
    by (intro loop_dispatched_none) simp
  then show ?thesis
    using np by (simp add: run_nonempty [OF ne] dispatched_append build_effects_silent)
qed

theorem explicit_token_never_dispatches_witness:
  "''p1-secret-xyz'' \<noteq> []
   \<and> getPersonalToken fallback_env = Some P1
   \<and> token P1 = ''p1-secret-xyz''
   \<and> outcome (fetchWithTokenRotation fallback_env ''/api/veo/status'' JNull ''VEO''
                (Some ''p1-secret-xyz'')) = Inl network_error
   \<and> dispatched (effects (fetchWithTokenRotation fallback_env ''/api/veo/status'' JNull ''VEO''
                            (Some ''p1-secret-xyz''))) = []"
proof -
  have ne: "''p1-secret-xyz'' \<noteq> []" by simp
  have pers: "getPersonalToken fallback_env = Some P1"
    by (simp add: getPersonalToken_def fallback_env_def scenario_env_def P1_def)
  have toks: "tokensToTry fallback_env (Some ''p1-secret-xyz'') =
                [\<lparr>token = ''p1-secret-xyz'', createdAt = ''N/A''\<rparr>]"
    by (simp add: tokensToTry_given given_def)
  have f: "try_block fallback_env ''/api/veo/status'' JNull 0
             \<lparr>token = ''p1-secret-xyz'', createdAt = ''N/A''\<rparr> = Inl network_error"
    by (simp add: try_block_def fallback_env_def scenario_env_def remote_def request_for_def)
  have out: "outcome (fetchWithTokenRotation fallback_env ''/api/veo/status'' JNull ''VEO''
                (Some ''p1-secret-xyz'')) = Inl network_error"
    by (simp add: run_nonempty toks f)
  show ?thesis
    using explicit_token_never_dispatches
            [OF ne, of fallback_env "''/api/veo/status''" JNull "''VEO''"] pers out
    by (simp add: P1_def)
qed

lemma run_session:
  "session (fetchWithTokenRotation e ep rb lc st) = fst (snd (build_tokensToTry e st))"
  by (cases "tokensToTry e st = []") (simp_all add: run_empty run_nonempty)

lemma run_effects:
  "effects (fetchWithTokenRotation e ep rb lc st) =
     snd (snd (build_tokensToTry e st))
     @ (if tokensToTry e st = [] then []
        else snd (attempt_loop e ep rb lc 0 (tokensToTry e st) None))"
  by (cases "tokensToTry e st = []") (simp_all add: run_empty run_nonempty)

lemma loop_never_refetches:
  "filter (\<lambda>x. x = GetVeoAuthTokens) (snd (attempt_loop e ep rb lc k toks le)) = []"
proof (induction toks arbitrary: k le)
  case Nil
  then show ?case by (cases le) simp_all
next
  case (Cons t ts)
  show ?case
  proof (cases "try_block e ep rb k t")
    case (Inl err)
    then show ?thesis
      using Cons
      by (simp add: loop_Cons_Inl attempt_effects_def catch_effects_def
            del: attempt_loop.simps)
  next
    case (Inr d)
    then show ?thesis
      by (simp add: loop_Cons_Inr attempt_effects_def del: attempt_loop.simps)
  qed
qed

lemma refetch_count:
  "filter (\<lambda>x. x = GetVeoAuthTokens) (snd (snd (refetch e))) = [GetVeoAuthTokens]"
  by (simp add: refetch_def split: sum.splits option.splits)

text \<open>What the token service answers matters only through \<open>refetch\<close>.\<close>

lemma getPersonalToken_service [simp]:
  "getPersonalToken (e\<lparr>getVeoAuthTokens := x\<rparr>) = getPersonalToken e"
  by (simp add: getPersonalToken_def split: option.splits sum.splits)

lemma getSharedTokens_service [simp]:
  "getSharedTokens (e\<lparr>getVeoAuthTokens := x\<rparr>) = getSharedTokens e"
  by (simp add: getSharedTokens_def split: option.splits sum.splits)

lemma try_block_service [simp]:
  "try_block (e\<lparr>getVeoAuthTokens := x\<rparr>) ep rb i t = try_block e ep rb i t"
  by (simp add: try_block_def request_for_def)

lemma attempt_effects_service [simp]:
  "attempt_effects (e\<lparr>getVeoAuthTokens := x\<rparr>) ep rb lc i t = attempt_effects e ep rb lc i t"
  by (simp add: attempt_effects_def attempt_entry_def tokenIdentifier_def request_for_def)

lemma catch_effects_service [simp]:
  "catch_effects (e\<lparr>getVeoAuthTokens := x\<rparr>) lc i t err = catch_effects e lc i t err"
  by (simp add: catch_effects_def failure_entry_def tokenIdentifier_def)

lemma attempt_loop_service [simp]:
  "attempt_loop (e\<lparr>getVeoAuthTokens := x\<rparr>) ep rb lc k toks le =
     attempt_loop e ep rb lc k toks le"
  by (induction toks arbitrary: k le) (simp_all split: sum.splits)

lemma refetch_throw_is_null:
  "getVeoAuthTokens e = Inl err \<Longrightarrow> refetch (e\<lparr>getVeoAuthTokens := Inr None\<rparr>) = refetch e"
  by (simp add: refetch_def)

lemma build_throw_is_null:
  "getVeoAuthTokens e = Inl err \<Longrightarrow>
   build_tokensToTry (e\<lparr>getVeoAuthTokens := Inr None\<rparr>) st = build_tokensToTry e st"
  by (simp add: build_tokensToTry_def refetch_throw_is_null Let_def case_prod_beta)

subsection \<open>The re-fetch of shared tokens\<close>

text \<open>
  Claim C6, as stated, fails when the re-fetch succeeds with an empty list: line 92 stores
  and uses the new tokens only when there is at least one. In the environment below the
  session holds nothing, the token service answers \<open>[]\<close>, and after the call the session
  still holds nothing: no \<open>setItem\<close> has happened.
\<close>

theorem refetch_of_nothing_is_not_stored:
  "getSharedTokens (offline_env\<lparr>localStorage := Map.empty\<rparr>) = []
   \<and> getVeoAuthTokens (offline_env\<lparr>localStorage := Map.empty\<rparr>) = Inr (Some [])
   \<and> session (fetchWithTokenRotation (offline_env\<lparr>localStorage := Map.empty\<rparr>)
                ''/api/veo/generate-t2v'' JNull ''VEO T2V'' None) ''veoAuthTokens'' = None
   \<and> effects (fetchWithTokenRotation (offline_env\<lparr>localStorage := Map.empty\<rparr>)
                ''/api/veo/generate-t2v'' JNull ''VEO T2V'' None) =
       [LocalStorage_getItem ''currentUser'', SessionStorage_getItem ''veoAuthTokens'',
        GetVeoAuthTokens]"
proof -
  let ?e = "offline_env\<lparr>localStorage := Map.empty\<rparr>"
  have pers: "getPersonalToken ?e = None"
    by (simp add: getPersonalToken_def)
  have shared: "getSharedTokens ?e = []"
    by (simp add: getSharedTokens_def offline_env_def)
  have re: "refetch ?e = ([], Map.empty, [GetVeoAuthTokens])"
    by (simp add: refetch_def offline_env_def)
  have b: "build_tokensToTry ?e None =
             ([], Map.empty,
              [LocalStorage_getItem ''currentUser'', SessionStorage_getItem ''veoAuthTokens'',
               GetVeoAuthTokens])"
    by (simp add: build_tokensToTry_def given_def pers shared re)
  have "getVeoAuthTokens ?e = Inr (Some [])" by (simp add: offline_env_def)
  then show ?thesis
    by (simp add: shared run_session run_effects tokensToTry_def b)
qed

text \<open>
  Claim C6, amended. In a call without a usable explicit token in which the session holds
  no shared token, the token service is asked exactly once. If it answers with at least one
  token, the new list is written to the session under \<open>veoAuthTokens\<close> and used as the
  shared candidates, after the personal token if there is one. If it answers with
  \<open>null\<close> or with an empty list, or if it throws, nothing is written and the shared
  candidates are none. A thrown error never reaches the caller: the call runs exactly as
  if the service had answered \<open>null\<close>.
\<close>

theorem empty_cache_refetches_once:
  assumes "\<not> given st" and "getSharedTokens e = []"
  shows "length (filter (\<lambda>x. x = GetVeoAuthTokens)
                   (effects (fetchWithTokenRotation e ep rb lc st))) = 1
       \<and> (\<forall>ts. getVeoAuthTokens e = Inr (Some ts) \<and> ts \<noteq> [] \<longrightarrow>
             session (fetchWithTokenRotation e ep rb lc st) =
               (sessionStorage e)(''veoAuthTokens'' \<mapsto> JSON_stringify_tokens e ts)
             \<and> tokensToTry e st = personal_list e @ ts)
       \<and> (getVeoAuthTokens e = Inr (Some []) \<or> getVeoAuthTokens e = Inr None
            \<or> isl (getVeoAuthTokens e) \<longrightarrow>
             session (fetchWithTokenRotation e ep rb lc st) = sessionStorage e
             \<and> tokensToTry e st = personal_list e)
       \<and> (\<forall>err. getVeoAuthTokens e = Inl err \<longrightarrow>
             fetchWithTokenRotation e ep rb lc st =
             fetchWithTokenRotation (e\<lparr>getVeoAuthTokens := Inr None\<rparr>) ep rb lc st)"
proof -
  note b = build_refetch [OF assms]
  have once: "length (filter (\<lambda>x. x = GetVeoAuthTokens)
                   (effects (fetchWithTokenRotation e ep rb lc st))) = 1"
    by (simp add: run_effects b refetch_count loop_never_refetches)
  have stored: "session (fetchWithTokenRotation e ep rb lc st) =
               (sessionStorage e)(''veoAuthTokens'' \<mapsto> JSON_stringify_tokens e ts)
             \<and> tokensToTry e st = personal_list e @ ts"
    if "getVeoAuthTokens e = Inr (Some ts) \<and> ts \<noteq> []" for ts
    using that by (simp add: run_session tokensToTry_def b refetch_def)
  have unchanged: "session (fetchWithTokenRotation e ep rb lc st) = sessionStorage e
             \<and> tokensToTry e st = personal_list e"
    if "getVeoAuthTokens e = Inr (Some []) \<or> getVeoAuthTokens e = Inr None
            \<or> isl (getVeoAuthTokens e)"
    using that
    by (cases "getVeoAuthTokens e")
       (auto simp: run_session tokensToTry_def b refetch_def split: option.splits)
  have swallowed: "fetchWithTokenRotation e ep rb lc st =
             fetchWithTokenRotation (e\<lparr>getVeoAuthTokens := Inr None\<rparr>) ep rb lc st"
    if "getVeoAuthTokens e = Inl err" for err
    by (simp add: fetchWithTokenRotation_def build_throw_is_null [OF that] case_prod_beta)
  show ?thesis
    using once stored unchanged swallowed by blast
qed

theorem empty_cache_refetches_once_witness:
  "\<not> given None
   \<and> getSharedTokens refresh_env = []
   \<and> getVeoAuthTokens refresh_env = Inr (Some [S1, S2])
   \<and> length (filter (\<lambda>x. x = GetVeoAuthTokens)
               (effects (fetchWithTokenRotation refresh_env ''/api/veo/generate-t2v'' JNull
                           ''VEO T2V'' None))) = 1
   \<and> session (fetchWithTokenRotation refresh_env ''/api/veo/generate-t2v'' JNull ''VEO T2V''
                None) ''veoAuthTokens'' = Some ''<S1,S2>''
   \<and> tokensToTry refresh_env None = [S1, S2]"
proof -
  have g: "\<not> given None" by (simp add: given_def)
  have shared: "getSharedTokens refresh_env = []"
    by (simp add: getSharedTokens_def refresh_env_def)
  have pers: "getPersonalToken refresh_env = None"
    by (simp add: getPersonalToken_def refresh_env_def scenario_env_def)
  have svc: "getVeoAuthTokens refresh_env = Inr (Some [S1, S2])"
    by (simp add: refresh_env_def)
  have str: "JSON_stringify_tokens refresh_env [S1, S2] = ''<S1,S2>''"
    by (simp add: refresh_env_def scenario_env_def)
  show ?thesis
    using empty_cache_refetches_once
            [OF g shared, of "''/api/veo/generate-t2v''" JNull "''VEO T2V''"]
          g shared svc pers str
    by simp
qed

subsection \<open>The error of a rejected request\<close>








text \<open>
  Three more cases: a body \<open>null\<close> makes the property access itself throw; a body without
  either field gives the generic message; a message that is an object with a field
  \<open>toString\<close> makes \<open>new Error\<close> throw.
\<close>

lemma null_body_throws_TypeError:
  "fetch e i (request_for e ep rb t) = Inr (Response code (Inr JNull)) \<Longrightarrow>
   \<not> (200 \<le> code \<and> code \<le> 299) \<Longrightarrow>
   try_block e ep rb i t = Inl null_read_error"
  by (simp add: try_block_def ok_def)

lemma generic_message_example:
  "try_block (scenario_env\<lparr>fetch := (\<lambda>n r. Inr (Response 503 (Inr (JObj []))))\<rparr>)
     ''/api/veo/generate-t2v'' JNull 0 S1 = Inl (JsError ''Error'' ''API call failed (503)'')"
  by (simp add: try_block_def ok_def errorMessage_def nested_message_def truthy_prop_def
        throw_new_Error_def show_nat.simps)

lemma unprintable_message_example:
  "try_block (scenario_env\<lparr>fetch := (\<lambda>n r. Inr (Response 500 (Inr
       (JObj [(''error'', JObj [(''message'', JObj [(''toString'', JStr ''x'')])])]))))\<rparr>)
     ''/api/veo/generate-t2v'' JNull 0 S1 =
   Inl (JsError ''TypeError'' ''Cannot convert object to primitive value'')"
  by (simp add: try_block_def ok_def errorMessage_def nested_message_def truthy_prop_def
        throw_new_Error_def cannot_convert_error_def)

lemma success_entries_of_pairs:
  "filter (\<lambda>x. status x = Success)
     (concat (map (\<lambda>j. [attempt_entry e lc (k + j) (toks ! j),
                       failure_entry e lc (k + j) (toks ! j) (errs j)]) [0..<n])) =
   map (\<lambda>j. attempt_entry e lc (k + j) (toks ! j)) [0..<n]"
  by (induction n) simp_all

lemma audit_and_requests_append:
  "audit_and_requests (xs @ ys) = audit_and_requests xs @ audit_and_requests ys"
  by (induction xs rule: audit_and_requests.induct) simp_all

lemma audit_and_requests_attempt_effects:
  "audit_and_requests (attempt_effects e ep rb lc i t) =
     [AddLogEntry (attempt_entry e lc i t), Fetch (request_for e ep rb t)]"
  by (simp add: attempt_effects_def)

lemma audit_and_requests_catch_effects:
  "audit_and_requests (catch_effects e lc i t err) = [AddLogEntry (failure_entry e lc i t err)]"
  by (simp add: catch_effects_def)

lemma audit_and_requests_build:
  "audit_and_requests (snd (snd (build_tokensToTry e st))) = []"
proof -
  consider "given st" | "\<not> given st" "getSharedTokens e \<noteq> []"
    | "\<not> given st" "getSharedTokens e = []"
    by blast
  then show ?thesis
  proof cases
    case 1 then show ?thesis by (simp add: build_given)
  next
    case 2 then show ?thesis by (simp add: build_cached)
  next
    case 3 then show ?thesis using refetch_effects_cases [of e] by (auto simp: build_refetch)
  qed
qed

lemma concat_attempts_audit_and_requests:
  "audit_and_requests
     (concat (map (\<lambda>j. attempt_effects e ep rb lc (k + j) (toks ! j)
                        @ catch_effects e lc (k + j) (toks ! j) (errs j)) [0..<n])) =
   concat (map (\<lambda>j. [AddLogEntry (attempt_entry e lc (k + j) (toks ! j)),
                     Fetch (request_for e ep rb (toks ! j)),
                     AddLogEntry (failure_entry e lc (k + j) (toks ! j) (errs j))]) [0..<n])"
  by (induction n)
     (simp_all add: audit_and_requests_append audit_and_requests_attempt_effects
        audit_and_requests_catch_effects)


subsection \<open>Log entries per attempt\<close>

text \<open>
  Claim C8, as stated, fails: a failed attempt logs two entries, and the entry that
  announces an attempt has the status \<open>Success\<close> (line 121), while a successful attempt
  logs nothing after its request. In the scenario of the specification (no personal token,
  \<open>S1\<close> rejected with status 500, \<open>S2\<close> accepted) the log receives three entries, two
  of them with status \<open>Success\<close>.
\<close>

theorem scenario_logs_three_entries:
  "map status (log_entries (effects (fetchWithTokenRotation scenario_env
      ''/api/veo/generate-t2v'' JNull ''VEO T2V'' None))) = [Success, Error, Success]
   \<and> map prompt (log_entries (effects (fetchWithTokenRotation scenario_env
      ''/api/veo/generate-t2v'' JNull ''VEO T2V'' None))) =
       [''Attempt with Shared Token #1'', ''Shared Token #1 failed'',
        ''Attempt with Shared Token #2'']
   \<and> map output_text (log_entries (effects (fetchWithTokenRotation scenario_env
      ''/api/veo/generate-t2v'' JNull ''VEO T2V'' None))) =
       [''...n-aaaa'', ''quota exceeded'', ''...n-bbbb'']"
proof -
  let ?ep = "''/api/veo/generate-t2v''"
  have pers: "getPersonalToken scenario_env = None"
    by (simp add: getPersonalToken_def scenario_env_def)
  have shared: "getSharedTokens scenario_env = [S1, S2]"
    by (simp add: getSharedTokens_def scenario_env_def)
  have toks: "tokensToTry scenario_env None = [S1, S2]"
    by (simp add: tokensToTry_def build_tokensToTry_def given_def pers shared)
  have f0: "try_block scenario_env ?ep JNull 0 S1 = Inl (JsError ''Error'' ''quota exceeded'')"
    by (simp add: try_block_def scenario_env_def remote_def request_for_def S1_def ok_def
          quota_body_def errorMessage_def nested_message_def truthy_prop_def
          throw_new_Error_def)
  have f1: "try_block scenario_env ?ep JNull (Suc 0) S2 = Inr ok_body"
    by (simp add: try_block_def scenario_env_def remote_def request_for_def S2_def ok_def)
  have np: "\<not> isPersonal S1" "\<not> isPersonal S2"
    by (simp_all add: isPersonal_def S1_def S2_def)
  have id0: "tokenIdentifier scenario_env 0 S1 = ''Shared Token #1''"
    using np by (simp add: tokenIdentifier_def pers show_int_def show_nat.simps)
  have id1: "tokenIdentifier scenario_env (Suc 0) S2 = ''Shared Token #2''"
    using np by (simp add: tokenIdentifier_def pers show_int_def show_nat.simps)
  have sl: "slice6 (token S1) = ''n-aaaa''" "slice6 (token S2) = ''n-bbbb''"
    by (simp_all add: slice6_def S1_def S2_def)
  have "log_entries (effects (fetchWithTokenRotation scenario_env ?ep JNull ''VEO T2V'' None)) =
          [attempt_entry scenario_env ''VEO T2V'' 0 S1,
           failure_entry scenario_env ''VEO T2V'' 0 S1 (JsError ''Error'' ''quota exceeded''),
           attempt_entry scenario_env ''VEO T2V'' (Suc 0) S2]"
    by (simp add: run_effects toks log_entries_append build_effects_silent f0 f1
          case_prod_beta log_entries_attempt_effects log_entries_catch_effects)
  then show ?thesis
    by (simp add: attempt_entry_def failure_entry_def id0 id1 sl)
qed

text \<open>
  Claim C8, amended. Every attempt logs exactly one entry before its request: the
  announcement, with status \<open>Success\<close>, the label of the token and the last characters
  of the token. A failed attempt logs exactly one more entry after its request, with status
  \<open>Error\<close> and with the message of the attempt's error as its output and as its error
  text. A successful attempt logs nothing after its request. So the log entries and the
  requests of a run that succeeds with candidate \<open>i\<close> are, in this order, the
  announcement, the request and the failure entry of each candidate before \<open>i\<close>, then
  the announcement and the request of candidate \<open>i\<close>: \<open>i\<close> entries with status
  \<open>Error\<close> and \<open>i + 1\<close> with status \<open>Success\<close>. When all candidates fail, they are
  that triple for each candidate and then the exhaustion entry, which carries the message
  of the last error. In the scenario with one rejected and one accepted shared token the
  log receives one entry with status \<open>Error\<close> and two with status \<open>Success\<close>.
\<close>

theorem log_entries_of_a_run:
  assumes "toks = tokensToTry e st" and "toks \<noteq> []"
    and "err = (\<lambda>j. projl (try_block e ep rb j (toks ! j)))"
    and "announced = (\<lambda>j. AddLogEntry
           \<lparr>model = lc,
            prompt = ''Attempt with '' @ tokenIdentifier e j (toks ! j),
            output_text = ''...'' @ drop (length (token (toks ! j)) - 6) (token (toks ! j)),
            tokenCount = 0, status = Success, error = None\<rparr>)"
    and "requested = (\<lambda>j. Fetch
           \<lparr>url = ep, http_method = ''POST'', content_type = ''application/json'',
            authorization = ''Bearer '' @ token (toks ! j),
            body = JSON_stringify e rb\<rparr>)"
    and "failed = (\<lambda>j. AddLogEntry
           \<lparr>model = lc,
            prompt = tokenIdentifier e j (toks ! j) @ '' failed'',
            output_text = message (err j),
            tokenCount = 0, status = Error, error = Some (message (err j))\<rparr>)"
  shows "(\<forall>i d. i < length toks \<and> (\<forall>j<i. isl (try_block e ep rb j (toks ! j)))
                \<and> try_block e ep rb i (toks ! i) = Inr d \<longrightarrow>
           audit_and_requests (effects (fetchWithTokenRotation e ep rb lc st)) =
             concat (map (\<lambda>j. [announced j, requested j, failed j]) [0..<i])
             @ [announced i, requested i]
           \<and> length (filter (\<lambda>x. status x = Error)
                (log_entries (effects (fetchWithTokenRotation e ep rb lc st)))) = i
           \<and> length (filter (\<lambda>x. status x = Success)
                (log_entries (effects (fetchWithTokenRotation e ep rb lc st)))) = Suc i)
       \<and> ((\<forall>j<length toks. isl (try_block e ep rb j (toks ! j))) \<longrightarrow>
           audit_and_requests (effects (fetchWithTokenRotation e ep rb lc st)) =
             concat (map (\<lambda>j. [announced j, requested j, failed j]) [0..<length toks])
             @ [AddLogEntry
                  \<lparr>model = lc, prompt = ''All available auth tokens failed.'',
                   output_text = ''Final error: '' @ message (err (length toks - 1)),
                   tokenCount = 0, status = Error,
                   error = Some (message (err (length toks - 1)))\<rparr>])"
proof -
  let ?log = "log_entries (effects (fetchWithTokenRotation e ep rb lc st))"
  let ?trace = "audit_and_requests (effects (fetchWithTokenRotation e ep rb lc st))"
  let ?pairs = "\<lambda>n. concat (map (\<lambda>j. [attempt_entry e lc j (toks ! j),
                               failure_entry e lc j (toks ! j) (err j)]) [0..<n])"
  have a: "announced j = AddLogEntry (attempt_entry e lc j (toks ! j))" for j
    by (simp add: assms(4) attempt_entry_def slice6_def)
  have r: "requested j = Fetch (request_for e ep rb (toks ! j))" for j
    by (simp add: assms(5) request_for_def)
  have f: "failed j = AddLogEntry (failure_entry e lc j (toks ! j) (err j))" for j
    by (simp add: assms(6) failure_entry_def)
  have triples: "audit_and_requests
       (concat (map (\<lambda>j. attempt_effects e ep rb lc (0 + j) (toks ! j)
                          @ catch_effects e lc (0 + j) (toks ! j) (err j)) [0..<n])) =
     concat (map (\<lambda>j. [announced j, requested j, failed j]) [0..<n])" for n
    using concat_attempts_audit_and_requests [of e ep rb lc 0 toks err n]
    by (simp add: a r f)
  have ne: "tokensToTry e st \<noteq> []" using assms(1,2) by simp
  have log: "?log = log_entries (snd (attempt_loop e ep rb lc 0 toks None))"
    by (simp add: run_nonempty [OF ne] assms(1) [symmetric] log_entries_append
          build_effects_silent)
  have trace: "?trace = audit_and_requests (snd (attempt_loop e ep rb lc 0 toks None))"
    by (simp add: run_nonempty [OF ne] assms(1) [symmetric] audit_and_requests_append
          audit_and_requests_build)
  have succ: "?trace = concat (map (\<lambda>j. [announced j, requested j, failed j]) [0..<i])
                 @ [announced i, requested i]
           \<and> length (filter (\<lambda>x. status x = Error) ?log) = i
           \<and> length (filter (\<lambda>x. status x = Success) ?log) = Suc i"
    if h: "i < length toks \<and> (\<forall>j<i. isl (try_block e ep rb j (toks ! j)))
                \<and> try_block e ep rb i (toks ! i) = Inr d" for i d
  proof -
    have h1: "i < length toks" using h by simp
    have h2: "\<forall>j<i. isl (try_block e ep rb (0 + j) (toks ! j))" using h by simp
    have h3: "try_block e ep rb (0 + i) (toks ! i) = Inr d" using h by simp
    have loop: "snd (attempt_loop e ep rb lc 0 toks None) =
        concat (map (\<lambda>j. attempt_effects e ep rb lc (0 + j) (toks ! j)
                          @ catch_effects e lc (0 + j) (toks ! j) (err j)) [0..<i])
        @ attempt_effects e ep rb lc (0 + i) (toks ! i)"
      by (simp add: loop_success [OF h1 h2 h3] assms(3))
    have t: "?trace = concat (map (\<lambda>j. [announced j, requested j, failed j]) [0..<i])
                 @ [announced i, requested i]"
      unfolding trace loop audit_and_requests_append triples
      by (simp add: audit_and_requests_attempt_effects a r)
    have l: "?log = ?pairs i @ [attempt_entry e lc i (toks ! i)]"
      unfolding log loop
      using concat_attempts_log_entries [of e ep rb lc 0 toks err i]
      by (simp add: log_entries_append log_entries_attempt_effects)
    show ?thesis
      using error_entries_of_pairs [of e lc 0 toks err i]
        success_entries_of_pairs [of e lc 0 toks err i]
      by (simp add: t l)
  qed
  have fail: "?trace = concat (map (\<lambda>j. [announced j, requested j, failed j]) [0..<length toks])
             @ [AddLogEntry
                  \<lparr>model = lc, prompt = ''All available auth tokens failed.'',
                   output_text = ''Final error: '' @ message (err (length toks - 1)),
                   tokenCount = 0, status = Error,
                   error = Some (message (err (length toks - 1)))\<rparr>]"
    if h: "\<forall>j<length toks. isl (try_block e ep rb j (toks ! j))"
  proof -
    have h2: "\<forall>j<length toks. isl (try_block e ep rb (0 + j) (toks ! j))" using h by simp
    have same: "attempt_loop e ep rb lc 0 toks None =
          attempt_loop e ep rb lc 0 toks (Some (JsError [] []))"
      using assms(2) by (rule loop_lastError_irrelevant)
    have lst: "projl (try_block e ep rb (length toks - 1) (last toks)) = err (length toks - 1)"
      using assms(2) by (simp add: assms(3) last_conv_nth)
    have loop: "snd (attempt_loop e ep rb lc 0 toks None) =
        concat (map (\<lambda>j. attempt_effects e ep rb lc (0 + j) (toks ! j)
                          @ catch_effects e lc (0 + j) (toks ! j) (err j)) [0..<length toks])
        @ [AddLogEntry (exhaustion_entry lc (err (length toks - 1)))]"
      using assms(2) lst by (simp add: same loop_all_fail [OF h2] assms(3))
    show ?thesis
      unfolding trace loop audit_and_requests_append triples
      by (simp add: exhaustion_entry_def)
  qed
  show ?thesis using succ fail by blast
qed

theorem log_entries_of_a_run_witness:
  "[S1, S2] = tokensToTry scenario_env None
   \<and> try_block scenario_env ''/api/veo/generate-t2v'' JNull 0 S1 =
       Inl (JsError ''Error'' ''quota exceeded'')
   \<and> try_block scenario_env ''/api/veo/generate-t2v'' JNull 1 S2 = Inr ok_body
   \<and> audit_and_requests (effects (fetchWithTokenRotation scenario_env ''/api/veo/generate-t2v''
         JNull ''VEO T2V'' None)) =
       [AddLogEntry \<lparr>model = ''VEO T2V'', prompt = ''Attempt with Shared Token #1'',
                     output_text = ''...n-aaaa'', tokenCount = 0, status = Success,
                     error = None\<rparr>,
        Fetch \<lparr>url = ''/api/veo/generate-t2v'', http_method = ''POST'',
               content_type = ''application/json'',
               authorization = ''Bearer s1-token-aaaa'', body = ''<body>''\<rparr>,
        AddLogEntry \<lparr>model = ''VEO T2V'', prompt = ''Shared Token #1 failed'',
                     output_text = ''quota exceeded'', tokenCount = 0, status = Error,
                     error = Some ''quota exceeded''\<rparr>,
        AddLogEntry \<lparr>model = ''VEO T2V'', prompt = ''Attempt with Shared Token #2'',
                     output_text = ''...n-bbbb'', tokenCount = 0, status = Success,
                     error = None\<rparr>,
        Fetch \<lparr>url = ''/api/veo/generate-t2v'', http_method = ''POST'',
               content_type = ''application/json'',
               authorization = ''Bearer s2-token-bbbb'', body = ''<body>''\<rparr>]
   \<and> length (filter (\<lambda>x. status x = Error)
        (log_entries (effects (fetchWithTokenRotation scenario_env ''/api/veo/generate-t2v''
           JNull ''VEO T2V'' None)))) = 1
   \<and> length (filter (\<lambda>x. status x = Success)
        (log_entries (effects (fetchWithTokenRotation scenario_env ''/api/veo/generate-t2v''
           JNull ''VEO T2V'' None)))) = 2"
proof -
  let ?ep = "''/api/veo/generate-t2v''"
  let ?run = "fetchWithTokenRotation scenario_env ?ep JNull ''VEO T2V'' None"
  have pers: "getPersonalToken scenario_env = None"
    by (simp add: getPersonalToken_def scenario_env_def)
  have shared: "getSharedTokens scenario_env = [S1, S2]"
    by (simp add: getSharedTokens_def scenario_env_def)
  have toks: "[S1, S2] = tokensToTry scenario_env None"
    by (simp add: tokensToTry_def build_tokensToTry_def given_def pers shared)
  have f0: "try_block scenario_env ?ep JNull 0 S1 = Inl (JsError ''Error'' ''quota exceeded'')"
    by (simp add: try_block_def scenario_env_def remote_def request_for_def S1_def ok_def
          quota_body_def errorMessage_def nested_message_def truthy_prop_def
          throw_new_Error_def)
  have f1: "try_block scenario_env ?ep JNull (Suc 0) S2 = Inr ok_body"
    by (simp add: try_block_def scenario_env_def remote_def request_for_def S2_def ok_def)
  have np: "\<not> isPersonal S1" "\<not> isPersonal S2"
    by (simp_all add: isPersonal_def S1_def S2_def)
  have id0: "tokenIdentifier scenario_env 0 S1 = ''Shared Token #1''"
    using np by (simp add: tokenIdentifier_def pers show_int_def show_nat.simps)
  have id1: "tokenIdentifier scenario_env (Suc 0) S2 = ''Shared Token #2''"
    using np by (simp add: tokenIdentifier_def pers show_int_def show_nat.simps)
  have tk: "token S1 = ''s1-token-aaaa''" "token S2 = ''s2-token-bbbb''"
    by (simp_all add: S1_def S2_def)
  have str: "JSON_stringify scenario_env JNull = ''<body>''"
    by (simp add: scenario_env_def)
  have ne: "[S1, S2] \<noteq> []" by simp
  have h: "Suc 0 < length [S1, S2]
           \<and> (\<forall>j<Suc 0. isl (try_block scenario_env ?ep JNull j ([S1, S2] ! j)))
           \<and> try_block scenario_env ?ep JNull (Suc 0) ([S1, S2] ! Suc 0) = Inr ok_body"
    using f0 f1 by simp
  note inst = log_entries_of_a_run [OF toks ne refl refl refl refl, of ?ep JNull "''VEO T2V''"]
  from inst [THEN conjunct1, rule_format, OF h]
  have "audit_and_requests (effects ?run) =
       [AddLogEntry \<lparr>model = ''VEO T2V'', prompt = ''Attempt with Shared Token #1'',
                     output_text = ''...n-aaaa'', tokenCount = 0, status = Success,
                     error = None\<rparr>,
        Fetch \<lparr>url = ''/api/veo/generate-t2v'', http_method = ''POST'',
               content_type = ''application/json'',
               authorization = ''Bearer s1-token-aaaa'', body = ''<body>''\<rparr>,
        AddLogEntry \<lparr>model = ''VEO T2V'', prompt = ''Shared Token #1 failed'',
                     output_text = ''quota exceeded'', tokenCount = 0, status = Error,
                     error = Some ''quota exceeded''\<rparr>,
        AddLogEntry \<lparr>model = ''VEO T2V'', prompt = ''Attempt with Shared Token #2'',
                     output_text = ''...n-bbbb'', tokenCount = 0, status = Success,
                     error = None\<rparr>,
        Fetch \<lparr>url = ''/api/veo/generate-t2v'', http_method = ''POST'',
               content_type = ''application/json'',
               authorization = ''Bearer s2-token-bbbb'', body = ''<body>''\<rparr>]
   \<and> length (filter (\<lambda>x. status x = Error) (log_entries (effects ?run))) = 1
   \<and> length (filter (\<lambda>x. status x = Success) (log_entries (effects ?run))) = 2"
    by (simp add: id0 id1 tk str f0)
  then show ?thesis
    using toks f0 f1 by simp
qed

lemma show_int_of_nat: "show_int (int n) = show_nat n"
  by (simp add: show_int_def)

lemma slice6_suffix: "\<exists>pre. s = pre @ slice6 s"
  by (metis append_take_drop_id slice6_def)

lemma slice6_length: "length (slice6 s) = min 6 (length s)"
  by (simp add: slice6_def)

subsection \<open>The label of an attempt\<close>

text \<open>
  Claim C9 says that the entry logged before a request shows the last characters of the
  token and labels it as the personal token or as shared token number \<open>k\<close>, where \<open>k\<close>
  counts from one among the shared tokens. The source computes \<open>k\<close> on line 118 as
  \<open>i - (getPersonalToken() ? 1 : 0) + 1\<close>: it takes one off whenever a personal token is
  configured, also when that token is not in the list. With an explicit token and a
  personal token configured, the one attempt is therefore labelled \<open>Shared Token #0\<close>.
\<close>

theorem explicit_token_is_labelled_shared_zero:
  "getPersonalToken fallback_env = Some P1
   \<and> tokensToTry fallback_env (Some ''s2-token-bbbb'') =
       [\<lparr>token = ''s2-token-bbbb'', createdAt = ''N/A''\<rparr>]
   \<and> log_entries (effects (fetchWithTokenRotation fallback_env ''/api/veo/status'' JNull
                             ''VEO'' (Some ''s2-token-bbbb''))) =
       [\<lparr>model = ''VEO'', prompt = ''Attempt with Shared Token #0'',
         output_text = ''...n-bbbb'', tokenCount = 0, status = Success, error = None\<rparr>]"
proof -
  let ?c = "\<lparr>token = ''s2-token-bbbb'', createdAt = ''N/A''\<rparr>"
  have pers: "getPersonalToken fallback_env = Some P1"
    by (simp add: getPersonalToken_def fallback_env_def scenario_env_def P1_def)
  have toks: "tokensToTry fallback_env (Some ''s2-token-bbbb'') = [?c]"
    by (simp add: tokensToTry_given given_def)
  have f: "try_block fallback_env ''/api/veo/status'' JNull 0 ?c = Inr ok_body"
    by (simp add: try_block_def fallback_env_def scenario_env_def remote_def request_for_def
          ok_def)
  have np: "\<not> isPersonal ?c" by (simp add: isPersonal_def)
  have ident: "tokenIdentifier fallback_env 0 ?c = ''Shared Token #0''"
    using np by (simp add: tokenIdentifier_def pers show_int_def show_nat.simps)
  have "log_entries (effects (fetchWithTokenRotation fallback_env ''/api/veo/status'' JNull
                             ''VEO'' (Some ''s2-token-bbbb''))) =
          [attempt_entry fallback_env ''VEO'' 0 ?c]"
    by (simp add: run_effects toks log_entries_append build_effects_silent f
          log_entries_attempt_effects)
  then show ?thesis
    using pers toks by (simp add: attempt_entry_def ident slice6_def)
qed

text \<open>
  In a rotation, and when no shared token has the \<open>createdAt\<close> value \<open>'personal'\<close>,
  the labels are as the claim says: the personal token, which comes first, is
  \<open>Personal Token\<close>, and the shared token at position \<open>k\<close> of the shared list,
  counting from one, is \<open>Shared Token #k\<close>. The logged text is \<open>...\<close> followed by the
  last six characters of the token (all of it, when it has no more than six).
\<close>

lemma rotation_labels:
  assumes "\<not> given st"
    and "toks = tokensToTry e st"
    and "shared = (if getSharedTokens e = [] then fst (refetch e) else getSharedTokens e)"
    and "\<forall>t\<in>set shared. \<not> isPersonal t"
  shows "getPersonalToken e = Some p \<longrightarrow>
           toks ! 0 = p \<and> tokenIdentifier e 0 (toks ! 0) = ''Personal Token''"
    and "k < length shared \<longrightarrow>
           toks ! (length (personal_list e) + k) = shared ! k
         \<and> tokenIdentifier e (length (personal_list e) + k) (shared ! k) =
             ''Shared Token #'' @ show_nat (Suc k)"
proof -
  have toks: "toks = personal_list e @ shared"
    using assms(1-3) by (simp add: tokensToTry_rotation)
  show "getPersonalToken e = Some p \<longrightarrow>
           toks ! 0 = p \<and> tokenIdentifier e 0 (toks ! 0) = ''Personal Token''"
    using getPersonalToken_isPersonal [of e p]
    by (auto simp: toks tokenIdentifier_def)
  show "k < length shared \<longrightarrow>
           toks ! (length (personal_list e) + k) = shared ! k
         \<and> tokenIdentifier e (length (personal_list e) + k) (shared ! k) =
             ''Shared Token #'' @ show_nat (Suc k)"
  proof
    assume k: "k < length shared"
    then have np: "\<not> isPersonal (shared ! k)" using assms(4) by simp
    have "int (length (personal_list e) + k)
            - (if getPersonalToken e \<noteq> None then 1 else 0) + 1 = int (Suc k)"
      by (cases "getPersonalToken e") simp_all
    then have "tokenIdentifier e (length (personal_list e) + k) (shared ! k) =
             ''Shared Token #'' @ show_nat (Suc k)"
      using np by (simp only: tokenIdentifier_def show_int_of_nat if_False)
    then show "toks ! (length (personal_list e) + k) = shared ! k
         \<and> tokenIdentifier e (length (personal_list e) + k) (shared ! k) =
             ''Shared Token #'' @ show_nat (Suc k)"
      by (simp add: toks nth_append)
  qed
qed

lemma attempt_entry_text:
  "output_text (attempt_entry e lc i t) = ''...'' @ slice6 (token t)
   \<and> prompt (attempt_entry e lc i t) = ''Attempt with '' @ tokenIdentifier e i t"
  by (simp add: attempt_entry_def)

end
